theory Spec2Isabelle
  imports Complex_Main "HOL-Library.AList" "HOL-Library.List_Lexorder" "HOL-Library.Char_ord"
begin

section \<open>Data model\<close>

text \<open>
  The transaction records are Python dictionaries read from JSON. The models read four
  keys only: \<^verbatim>\<open>category\<close> (expenses), \<^verbatim>\<open>source\<close> (income), \<^verbatim>\<open>amount\<close> and
  \<^verbatim>\<open>date\<close>. A record is therefore a value of \<open>entry\<close>; a key that is missing from the
  dictionary is \<open>None\<close>. \<^verbatim>\<open>pd.DataFrame(records)\<close> has a column exactly for the keys
  that occur in at least one record, and holds NaN where a record lacks the key.

  Amounts are Python floats; they are modelled by the real numbers, so rounding errors
  of the floating-point operations and the special values (NaN, infinities) are outside
  the model. A date is the string the record holds.
\<close>

record entry =
  category :: "string option"
  source :: "string option"
  amount :: "real option"
  date :: "string option"

text \<open>
  The attributes of a \<^verbatim>\<open>pandas.Timestamp\<close> that the models read. Parsing a date
  string is the library's business: every function that calls \<^verbatim>\<open>pd.to_datetime\<close>
  takes the parser \<open>p\<close> as a parameter, \<open>p s = None\<close> meaning that the string \<open>s\<close>
  cannot be parsed (the library raises). A date string that is present is taken to
  parse to a timestamp or to fail; strings that the library maps to NaT (the empty
  string) are outside the model.
\<close>

record timestamp =
  year :: int
  month :: int
  dayofweek :: int

section \<open>The pandas operations used by the models\<close>

definition has_column :: "(entry \<Rightarrow> 'a option) \<Rightarrow> entry list \<Rightarrow> bool" where
  \<comment> \<open>\<^verbatim>\<open>'key' in df.columns\<close>\<close>
  "has_column f xs = list_ex (\<lambda>x. f x \<noteq> None) xs"

definition amount_sum :: "entry list \<Rightarrow> real" where
  \<comment> \<open>\<^verbatim>\<open>df['amount'].sum()\<close>: NaN cells are skipped\<close>
  "amount_sum xs = sum_list (List.map_filter amount xs)"

definition to_datetime :: "(string \<Rightarrow> timestamp option) \<Rightarrow> string option list \<Rightarrow> timestamp option list option" where
  \<comment> \<open>\<^verbatim>\<open>pd.to_datetime(df['date'])\<close>: \<open>None\<close> when the call raises; a NaN cell becomes NaT,
      which is the inner \<open>None\<close>\<close>
  "to_datetime p col =
     (if list_ex (\<lambda>s. s \<noteq> None \<and> Option.bind s p = None) col then None
      else Some (map (\<lambda>s. Option.bind s p) col))"

definition mean :: "real list \<Rightarrow> real" where
  "mean vs = sum_list vs / real (length vs)"

definition groupby_category_sum :: "entry list \<Rightarrow> (string \<times> real) list" where
  \<comment> \<open>\<^verbatim>\<open>df.groupby('category')['amount'].sum().to_dict()\<close>: rows without a category are
      dropped, the keys are sorted\<close>
  "groupby_category_sum xs =
     map (\<lambda>c. (c, amount_sum (filter (\<lambda>x. category x = Some c) xs)))
         (sort (remdups (List.map_filter category xs)))"

definition month_year :: "timestamp \<Rightarrow> int \<times> int" where
  \<comment> \<open>\<^verbatim>\<open>strftime('%Y-%m')\<close>\<close>
  "month_year t = (year t, month t)"

definition groupby_month_sum :: "(timestamp option \<times> entry) list \<Rightarrow> real list" where
  \<comment> \<open>\<^verbatim>\<open>df.groupby('month_year')['amount'].sum()\<close>: one sum for each month that occurs;
      rows whose date is NaT are dropped\<close>
  "groupby_month_sum rows =
     map (\<lambda>k. amount_sum (map snd (filter (\<lambda>r. map_option month_year (fst r) = Some k) rows)))
         (remdups (List.map_filter (\<lambda>r. map_option month_year (fst r)) rows))"

definition round_half_even :: "real \<Rightarrow> int" where
  \<comment> \<open>the nearest integer, a tie to the even one\<close>
  "round_half_even y =
     (let f = \<lfloor>y\<rfloor>; r = y - of_int f
      in if r < 1 / 2 then f else if r > 1 / 2 then f + 1 else if even f then f else f + 1)"

definition round2 :: "real \<Rightarrow> real" where
  \<comment> \<open>\<^verbatim>\<open>round(x, 2)\<close>\<close>
  "round2 x = of_int (round_half_even (x * 100)) / 100"

definition unique :: "'a list \<Rightarrow> 'a list" where
  \<comment> \<open>\<^verbatim>\<open>Series.unique()\<close>: the distinct values in the order of their first occurrence\<close>
  "unique xs = rev (remdups (rev xs))"

section \<open>BudgetOptimizer\<close>

definition ideal_allocations :: "(string \<times> real) list" where
  "ideal_allocations =
     [(''housing'', 30), (''utilities'', 10), (''food'', 15), (''transportation'', 10),
      (''entertainment'', 5), (''health'', 10), (''education'', 5), (''other'', 15)]"

definition minimum_allocations :: "(string \<times> real) list" where
  "minimum_allocations =
     [(''housing'', 20), (''utilities'', 5), (''food'', 10), (''transportation'', 5),
      (''health'', 5), (''education'', 2), (''entertainment'', 2), (''other'', 5)]"

definition analyze_spending_patterns :: "entry list \<Rightarrow> (string \<times> real) list" where
  "analyze_spending_patterns expenses =
     (if expenses = [] then []
      else if \<not> has_column category expenses \<or> \<not> has_column amount expenses then []
      else let spending_by_category = groupby_category_sum expenses;
               total_spending = sum_list (map snd spending_by_category)
           in map (\<lambda>(c, a). (c, if total_spending > 0 then (a / total_spending) * 100 else 0))
                  spending_by_category)"

definition calculate_total_income :: "(string \<Rightarrow> timestamp option) \<Rightarrow> entry list \<Rightarrow> real" where
  "calculate_total_income p income =
     (if income = [] then 0
      else if \<not> has_column amount income then 0
      else if has_column date income then
        (case to_datetime p (map date income) of
           Some ds \<Rightarrow> mean (groupby_month_sum (zip ds income))
         | None \<Rightarrow> amount_sum income / max 1 (real (length income)))
      else amount_sum income)"

definition monthly_income_of :: "(string \<Rightarrow> timestamp option) \<Rightarrow> entry list \<Rightarrow> entry list \<Rightarrow> real" where
  \<comment> \<open>the first block of \<^verbatim>\<open>optimize\<close>: the income, else the total of the expenses, else 50000\<close>
  "monthly_income_of p expenses income =
     (let monthly_income = calculate_total_income p income
      in if monthly_income \<le> 0 then
           (let monthly_income =
                  (if expenses \<noteq> [] \<and> has_column amount expenses then amount_sum expenses
                   else monthly_income)
            in if monthly_income \<le> 0 then 50000 else monthly_income)
         else monthly_income)"

definition seed_budget :: "real \<Rightarrow> (string \<times> real) list" where
  "seed_budget monthly_income =
     map (\<lambda>(c, percentage). (c, (percentage / 100) * monthly_income)) ideal_allocations"

definition adjust_step :: "real \<Rightarrow> string \<times> real \<Rightarrow> (string \<times> real) list \<Rightarrow> (string \<times> real) list" where
  "adjust_step monthly_income =
     (\<lambda>(c, percentage) optimized_budget.
        case map_of optimized_budget c of
          None \<Rightarrow> optimized_budget
        | Some v \<Rightarrow>
            (let current_spending = (percentage / 100) * monthly_income
             in if current_spending < v then AList.update c current_spending optimized_budget
                else optimized_budget))"

definition floor_step :: "real \<Rightarrow> string \<times> real \<Rightarrow> (string \<times> real) list \<Rightarrow> (string \<times> real) list" where
  "floor_step monthly_income =
     (\<lambda>(c, min_percentage) optimized_budget.
        let min_amount = (min_percentage / 100) * monthly_income
        in case map_of optimized_budget c of
             None \<Rightarrow> optimized_budget
           | Some v \<Rightarrow> if v < min_amount then AList.update c min_amount optimized_budget
                       else optimized_budget)"

definition blend_step :: "string \<times> real \<Rightarrow> (string \<times> real) list \<Rightarrow> (string \<times> real) list" where
  "blend_step =
     (\<lambda>(c, a) optimized_budget.
        case map_of optimized_budget c of
          None \<Rightarrow> optimized_budget
        | Some v \<Rightarrow> AList.update c ((a + v) / 2) optimized_budget)"

definition unrounded_budget ::
  "(string \<Rightarrow> timestamp option) \<Rightarrow> entry list \<Rightarrow> entry list \<Rightarrow> (string \<times> real) list option
     \<Rightarrow> (string \<times> real) list" where
  \<comment> \<open>\<^verbatim>\<open>optimize\<close> up to its last loop; a dictionary is the list of its items\<close>
  "unrounded_budget p expenses income current_budget =
     (let spending_patterns = analyze_spending_patterns expenses;
          monthly_income = monthly_income_of p expenses income;
          optimized_budget = seed_budget monthly_income;
          optimized_budget =
            (if spending_patterns \<noteq> []
             then fold (adjust_step monthly_income) spending_patterns optimized_budget
             else optimized_budget);
          optimized_budget = fold (floor_step monthly_income) minimum_allocations optimized_budget
      in case current_budget of
           None \<Rightarrow> optimized_budget
         | Some cb \<Rightarrow> if cb \<noteq> [] then fold blend_step cb optimized_budget else optimized_budget)"

definition optimize ::
  "(string \<Rightarrow> timestamp option) \<Rightarrow> entry list \<Rightarrow> entry list \<Rightarrow> (string \<times> real) list option
     \<Rightarrow> (string \<times> real) list" where
  "optimize p expenses income current_budget =
     map (\<lambda>(c, v). (c, round2 v)) (unrounded_budget p expenses income current_budget)"

section \<open>SavingsPredictor\<close>

text \<open>The instance has one attribute, set to 0.1 by the constructor.\<close>

record savings_predictor =
  savings_rate :: real

definition new_savings_predictor :: savings_predictor where
  "new_savings_predictor = \<lparr>savings_rate = 1 / 10\<rparr>"

text \<open>The dictionary that \<^verbatim>\<open>SavingsPredictor.predict\<close> returns.\<close>

record savings_prediction =
  next_month :: real
  six_month_forecast :: "real list"
  savings_rate_percent :: real

definition later :: "timestamp \<Rightarrow> timestamp \<Rightarrow> bool" where
  \<comment> \<open>the order of timestamps as far as year and month tell; the day, which refines it,
      does not change the year and the month of the earliest and the latest one\<close>
  "later a b = (year b < year a \<or> (year b = year a \<and> month b < month a))"

definition date_min :: "timestamp \<Rightarrow> timestamp list \<Rightarrow> timestamp" where
  "date_min t ts = fold (\<lambda>a m. if later m a then a else m) ts t"

definition date_max :: "timestamp \<Rightarrow> timestamp list \<Rightarrow> timestamp" where
  "date_max t ts = fold (\<lambda>a m. if later a m then a else m) ts t"

definition months_of_range :: "timestamp option list \<Rightarrow> int" where
  \<comment> \<open>\<^verbatim>\<open>max(1, (end_date.year - start_date.year) * 12 + end_date.month - start_date.month)\<close>,
      the minimum and the maximum skipping NaT; with no timestamp at all the difference
      is NaN and \<^verbatim>\<open>max(1, nan)\<close> is 1\<close>
  "months_of_range ds =
     (case List.map_filter id ds of
        [] \<Rightarrow> 1
      | t # ts \<Rightarrow>
          (let start_date = date_min t ts; end_date = date_max t ts
           in max 1 ((year end_date - year start_date) * 12 + month end_date - month start_date)))"

definition calculate_monthly_savings ::
  "(string \<Rightarrow> timestamp option) \<Rightarrow> savings_predictor \<Rightarrow> entry list \<Rightarrow> entry list
     \<Rightarrow> savings_predictor \<times> real" where
  "calculate_monthly_savings p self income_data expense_data =
     (if income_data = [] \<or> expense_data = [] then (self, 0)
      else if \<not> has_column amount income_data \<or> \<not> has_column amount expense_data then (self, 0)
      else
        (let total_income = amount_sum income_data;
             total_expenses = amount_sum expense_data;
             total_savings = total_income - total_expenses;
             self = (if total_income > 0 then self\<lparr>savings_rate := total_savings / total_income\<rparr>
                     else self)
         in if has_column date income_data then
              (case to_datetime p (map date income_data) of
                 Some ds \<Rightarrow> (self, total_savings / of_int (months_of_range ds))
               | None \<Rightarrow> (self, total_savings / real (max 1 (length income_data))))
            else (self, total_savings / real (max 1 (length income_data)))))"

definition growth_rate :: real where
  "growth_rate = 102 / 100"

fun forecast_loop :: "nat \<Rightarrow> real \<Rightarrow> real list \<Rightarrow> real list" where
  \<comment> \<open>\<^verbatim>\<open>for _ in range(n): forecast.append(current_savings); current_savings *= growth_rate\<close>\<close>
  "forecast_loop 0 current_savings forecast = forecast"
| "forecast_loop (Suc n) current_savings forecast =
     forecast_loop n (current_savings * growth_rate) (forecast @ [current_savings])"

definition truthy :: "'a list option \<Rightarrow> bool" where
  \<comment> \<open>the truth value of an optional list argument: neither \<^verbatim>\<open>None\<close> nor empty\<close>
  "truthy xs = (case xs of None \<Rightarrow> False | Some ys \<Rightarrow> ys \<noteq> [])"

definition savings_predict ::
  "(string \<Rightarrow> timestamp option) \<Rightarrow> savings_predictor \<Rightarrow> entry list
     \<Rightarrow> entry list option \<Rightarrow> entry list option \<Rightarrow> savings_predictor \<times> savings_prediction" where
  \<comment> \<open>\<^verbatim>\<open>SavingsPredictor.predict\<close>\<close>
  "savings_predict p self savings_data income_data expense_data =
     (let avg_monthly_savings =
            (if savings_data \<noteq> [] then
               (if has_column amount savings_data then mean (List.map_filter amount savings_data)
                else 0)
             else 0);
          (self, next_month_savings) =
            (if truthy income_data \<and> truthy expense_data then
               (let (self, calculated_monthly_savings) =
                      calculate_monthly_savings p self (the income_data) (the expense_data)
                in if avg_monthly_savings > 0 \<and> calculated_monthly_savings > 0
                   then (self, (avg_monthly_savings + calculated_monthly_savings) / 2)
                   else (self, max avg_monthly_savings calculated_monthly_savings))
             else (self, avg_monthly_savings))
      in (self, \<lparr>next_month = next_month_savings,
                 six_month_forecast = forecast_loop 6 next_month_savings [],
                 savings_rate_percent = savings_rate self * 100\<rparr>))"

section \<open>The encoder and the regression\<close>

text \<open>
  A label is the content of a \<^verbatim>\<open>category\<close> or \<^verbatim>\<open>source\<close> cell: a string, or NaN
  (\<open>None\<close>) where the record has no such key. \<^verbatim>\<open>OneHotEncoder\<close> keeps the sorted
  distinct strings of the column it is fitted on, NaN last. \<^verbatim>\<open>fit_transform\<close> encodes
  every cell of that column, the NaN cells included, by its indicator vector over them.
\<close>

type_synonym label = "string option"

definition encoder_fit :: "label list \<Rightarrow> label list" where
  "encoder_fit col =
     map Some (sort (remdups (List.map_filter id col))) @ (if None \<in> set col then [None] else [])"

definition indicator :: "label list \<Rightarrow> label \<Rightarrow> real list" where
  "indicator vocabulary l = map (\<lambda>c. if c = l then 1 else 0) vocabulary"

datatype error = ValueError | NotFittedError | KeyError | DateParseError | TypeError

text \<open>
  \<^verbatim>\<open>predict\<close> encodes one label at a time, \<^verbatim>\<open>self.encoder.transform([[label]])\<close>. With
  \<^verbatim>\<open>handle_unknown='ignore'\<close> a string is encoded by its indicator vector, which is
  all zero for a string outside the vocabulary. A NaN label makes the argument an array
  of floats, which the library cannot compare with the strings of the vocabulary: the
  call raises \<^verbatim>\<open>TypeError\<close>.
\<close>

definition encoder_transform :: "label list \<Rightarrow> label \<Rightarrow> error + real list" where
  "encoder_transform vocabulary l =
     (case l of
        None \<Rightarrow> Inl TypeError
      | Some s \<Rightarrow> Inr (indicator vocabulary (Some s)))"

text \<open>
  A fitted \<^verbatim>\<open>LinearRegression\<close> is its coefficients and its intercept. The
  least-squares fit itself is the library's: \<^verbatim>\<open>train\<close> takes it as the parameter
  \<open>ols\<close>, from the feature rows and the targets to the fitted model. The library refuses
  (\<^verbatim>\<open>ValueError\<close>) rows or targets that hold NaN, and a row to predict whose width is
  not the width it was fitted on.
\<close>

record linreg =
  coef :: "real list"
  intercept :: real

definition linreg_predict :: "linreg \<Rightarrow> real list \<Rightarrow> error + real" where
  "linreg_predict m x =
     (if length x = length (coef m)
      then Inr (intercept m + sum_list (map2 (*) (coef m) x))
      else Inl ValueError)"

text \<open>
  Both predictor classes have the same attributes: the regression (\<open>None\<close> until it is
  fitted), the encoder's vocabulary (\<open>None\<close> until it is fitted), the flag, and the
  labels saved by \<^verbatim>\<open>train\<close> (\<^verbatim>\<open>self.categories\<close>, \<^verbatim>\<open>self.sources\<close>; the attribute
  does not exist before the first successful training).
\<close>

record predictor =
  model :: "linreg option"
  encoder :: "label list option"
  is_trained :: bool
  labels :: "label list option"

definition new_predictor :: predictor where
  "new_predictor = \<lparr>model = None, encoder = None, is_trained = False, labels = None\<rparr>"

text \<open>The dictionary that a predictor returns: the total and the items of the breakdown
  (\<^verbatim>\<open>categories\<close>, \<^verbatim>\<open>sources\<close>), in insertion order.\<close>

record prediction =
  total :: real
  breakdown :: "(label \<times> real) list"

definition next_month_of :: "int \<Rightarrow> int" where
  \<comment> \<open>\<^verbatim>\<open>next_month = now.month + 1 if now.month < 12 else 1\<close>; the month of the clock
      is a parameter of \<^verbatim>\<open>predict\<close>\<close>
  "next_month_of now_month = (if now_month < 12 then now_month + 1 else 1)"

section \<open>ExpensePredictor\<close>

definition all_categories :: "string list" where
  "all_categories =
     [''housing'', ''utilities'', ''food'', ''transportation'',
      ''entertainment'', ''health'', ''education'', ''other'']"

definition zero_prediction :: prediction where
  "zero_prediction = \<lparr>total = 0, breakdown = map (\<lambda>c. (Some c, 0)) all_categories\<rparr>"

definition expense_prepare_data ::
  "(string \<Rightarrow> timestamp option) \<Rightarrow> predictor \<Rightarrow> entry list
     \<Rightarrow> predictor \<times> (error + (real option list list \<times> real option list) option)" where
  \<comment> \<open>\<^verbatim>\<open>_prepare_data\<close>: \<open>Inr None\<close> is \<^verbatim>\<open>(None, None)\<close>; a NaN in X or y is \<open>None\<close>\<close>
  "expense_prepare_data p self expenses =
     (if expenses = [] then (self, Inr None)
      else if \<not> has_column category expenses \<or> \<not> has_column amount expenses
              \<or> \<not> has_column date expenses then (self, Inr None)
      else
        (case to_datetime p (map date expenses) of
           None \<Rightarrow> (self, Inl DateParseError)
         | Some ds \<Rightarrow>
             (let vocabulary = encoder_fit (map category expenses);
                  X = map2 (\<lambda>x d. map Some (indicator vocabulary (category x))
                                   @ [map_option (\<lambda>t. of_int (month t)) d,
                                      map_option (\<lambda>t. of_int (dayofweek t)) d])
                        expenses ds;
                  y = map amount expenses
              in (self\<lparr>encoder := Some vocabulary\<rparr>, Inr (Some (X, y))))))"

definition fit_model ::
  "(real list list \<Rightarrow> real list \<Rightarrow> linreg) \<Rightarrow> real option list list \<Rightarrow> real option list
     \<Rightarrow> error + linreg" where
  \<comment> \<open>\<^verbatim>\<open>self.model.fit(X, y)\<close>\<close>
  "fit_model ols X y =
     (case (those (map those X), those y) of
        (Some X', Some y') \<Rightarrow> Inr (ols X' y')
      | _ \<Rightarrow> Inl ValueError)"

definition expense_train ::
  "(real list list \<Rightarrow> real list \<Rightarrow> linreg) \<Rightarrow> (string \<Rightarrow> timestamp option) \<Rightarrow> predictor
     \<Rightarrow> entry list \<Rightarrow> predictor \<times> (error + bool)" where
  "expense_train ols p self expenses =
     (case expense_prepare_data p self expenses of
        (self, Inl e) \<Rightarrow> (self, Inl e)
      | (self, Inr None) \<Rightarrow> (self\<lparr>is_trained := False\<rparr>, Inr False)
      | (self, Inr (Some (X, y))) \<Rightarrow>
          if length X < 2 then (self\<lparr>is_trained := False\<rparr>, Inr False)
          else
            (case fit_model ols X y of
               Inl e \<Rightarrow> (self, Inl e)
             | Inr m \<Rightarrow>
                 (self\<lparr>model := Some m, is_trained := True,
                        labels := (if has_column category expenses
                                   then Some (unique (map category expenses)) else Some [])\<rparr>,
                  Inr True)))"

fun day_loop :: "linreg \<Rightarrow> real list \<Rightarrow> int \<Rightarrow> nat list \<Rightarrow> real \<Rightarrow> error + real" where
  \<comment> \<open>the loop over the days of the week for one category\<close>
  "day_loop m cat_encoded target_month [] category_pred = Inr category_pred"
| "day_loop m cat_encoded target_month (day # days) category_pred =
     (case linreg_predict m (cat_encoded @ [of_int target_month, real day]) of
        Inl e \<Rightarrow> Inl e
      | Inr raw \<Rightarrow> day_loop m cat_encoded target_month days (category_pred + max 0 raw / 7))"

definition predict_category :: "predictor \<Rightarrow> int \<Rightarrow> label \<Rightarrow> error + real" where
  "predict_category self target_month c =
     (case encoder self of
        None \<Rightarrow> Inl NotFittedError
      | Some vocabulary \<Rightarrow>
          (case encoder_transform vocabulary c of
             Inl e \<Rightarrow> Inl e
           | Inr cat_encoded \<Rightarrow>
               (case model self of
                  None \<Rightarrow> Inl NotFittedError
                | Some m \<Rightarrow> day_loop m cat_encoded target_month [0..<7] 0)))"

fun predict_each :: "(label \<Rightarrow> error + real) \<Rightarrow> label list \<Rightarrow> error + (label \<times> real) list" where
  \<comment> \<open>the loop that fills the dictionary \<^verbatim>\<open>predictions\<close>\<close>
  "predict_each f [] = Inr []"
| "predict_each f (c # cs) =
     (case f c of
        Inl e \<Rightarrow> Inl e
      | Inr v \<Rightarrow> (case predict_each f cs of Inl e \<Rightarrow> Inl e | Inr rest \<Rightarrow> Inr ((c, v) # rest)))"

definition expense_categories :: "entry list \<Rightarrow> label list" where
  \<comment> \<open>the categories of the data, then the standard ones that are missing\<close>
  "expense_categories expenses =
     (if has_column category expenses then
        (let categories = unique (map category expenses)
         in categories @ filter (\<lambda>c. c \<notin> set categories) (map Some all_categories))
      else map Some all_categories)"

definition expense_predict ::
  "(real list list \<Rightarrow> real list \<Rightarrow> linreg) \<Rightarrow> (string \<Rightarrow> timestamp option) \<Rightarrow> int
     \<Rightarrow> predictor \<Rightarrow> entry list \<Rightarrow> predictor \<times> (error + prediction)" where
  "expense_predict ols p now_month self expenses =
     (if length expenses < 3 then (self, Inr zero_prediction)
      else
        (case (if \<not> is_trained self then expense_train ols p self expenses else (self, Inr True)) of
           (self, Inl e) \<Rightarrow> (self, Inl e)
         | (self, Inr _) \<Rightarrow>
             if \<not> is_trained self then (self, Inr zero_prediction)
             else
               (case predict_each (predict_category self (next_month_of now_month))
                       (expense_categories expenses) of
                  Inl e \<Rightarrow> (self, Inl e)
                | Inr predictions \<Rightarrow>
                    (self, Inr \<lparr>total = sum_list (map snd predictions),
                               breakdown = predictions\<rparr>))))"

section \<open>IncomePredictor\<close>

definition default_sources :: "string list" where
  "default_sources =
     [''salary'', ''freelance'', ''business'', ''investments'', ''rental'', ''gifts'', ''other'']"

definition income_prepare_data ::
  "(string \<Rightarrow> timestamp option) \<Rightarrow> predictor \<Rightarrow> entry list
     \<Rightarrow> predictor \<times> (error + (real option list list \<times> real option list) option)" where
  "income_prepare_data p self income_data =
     (if income_data = [] then (self, Inr None)
      else if \<not> has_column source income_data \<or> \<not> has_column amount income_data
              \<or> \<not> has_column date income_data then (self, Inr None)
      else
        (case to_datetime p (map date income_data) of
           None \<Rightarrow> (self, Inl DateParseError)
         | Some ds \<Rightarrow>
             (let vocabulary = encoder_fit (map source income_data);
                  X = map2 (\<lambda>x d. map Some (indicator vocabulary (source x))
                                   @ [map_option (\<lambda>t. of_int (month t)) d])
                        income_data ds;
                  y = map amount income_data
              in (self\<lparr>encoder := Some vocabulary\<rparr>, Inr (Some (X, y))))))"

definition income_train ::
  "(real list list \<Rightarrow> real list \<Rightarrow> linreg) \<Rightarrow> (string \<Rightarrow> timestamp option) \<Rightarrow> predictor
     \<Rightarrow> entry list \<Rightarrow> predictor \<times> (error + bool)" where
  "income_train ols p self income_data =
     (case income_prepare_data p self income_data of
        (self, Inl e) \<Rightarrow> (self, Inl e)
      | (self, Inr None) \<Rightarrow> (self\<lparr>is_trained := False\<rparr>, Inr False)
      | (self, Inr (Some (X, y))) \<Rightarrow>
          if length X < 2 then (self\<lparr>is_trained := False\<rparr>, Inr False)
          else
            (case fit_model ols X y of
               Inl e \<Rightarrow> (self, Inl e)
             | Inr m \<Rightarrow>
                 (self\<lparr>model := Some m, is_trained := True,
                        labels := (if has_column source income_data
                                   then Some (unique (map source income_data)) else Some [])\<rparr>,
                  Inr True)))"

definition predict_source :: "predictor \<Rightarrow> int \<Rightarrow> label \<Rightarrow> error + real" where
  "predict_source self target_month s =
     (case encoder self of
        None \<Rightarrow> Inl NotFittedError
      | Some vocabulary \<Rightarrow>
          (case encoder_transform vocabulary s of
             Inl e \<Rightarrow> Inl e
           | Inr source_encoded \<Rightarrow>
               (case model self of
                  None \<Rightarrow> Inl NotFittedError
                | Some m \<Rightarrow>
                    (case linreg_predict m (source_encoded @ [of_int target_month]) of
                       Inl e \<Rightarrow> Inl e
                     | Inr raw \<Rightarrow> Inr (max 0 raw)))))"

definition income_sources :: "entry list \<Rightarrow> label list" where
  "income_sources income_data =
     (let sources = (if has_column source income_data then unique (map source income_data) else [])
      in if sources = [] then map Some default_sources else sources)"

definition income_predict ::
  "(real list list \<Rightarrow> real list \<Rightarrow> linreg) \<Rightarrow> (string \<Rightarrow> timestamp option) \<Rightarrow> int
     \<Rightarrow> predictor \<Rightarrow> entry list \<Rightarrow> predictor \<times> (error + prediction)" where
  "income_predict ols p now_month self income_data =
     (if length income_data < 2 then (self, Inr \<lparr>total = 0, breakdown = []\<rparr>)
      else
        (case (if \<not> is_trained self then income_train ols p self income_data
               else (self, Inr True)) of
           (self, Inl e) \<Rightarrow> (self, Inl e)
         | (self, Inr _) \<Rightarrow>
             if \<not> is_trained self then (self, Inr \<lparr>total = 0, breakdown = []\<rparr>)
             else
               (case predict_each (predict_source self (next_month_of now_month))
                       (income_sources income_data) of
                  Inl e \<Rightarrow> (self, Inl e)
                | Inr predictions \<Rightarrow>
                    (let total_prediction = sum_list (map snd predictions)
                     in if length income_data \<ge> 2 \<and> total_prediction = 0 then
                          (case those (map amount income_data) of
                             None \<Rightarrow> (self, Inl KeyError)
                           | Some amounts \<Rightarrow>
                               (self, Inr \<lparr>total = sum_list amounts / real (length amounts),
                                          breakdown = predictions\<rparr>))
                        else (self, Inr \<lparr>total = total_prediction, breakdown = predictions\<rparr>)))))"

section \<open>Sequences of calls on one ExpensePredictor\<close>

text \<open>
  A client calls \<^verbatim>\<open>train\<close> and \<^verbatim>\<open>predict\<close> on one instance, in any order; \<^verbatim>\<open>predict\<close>
  reads the month of the clock. \<open>exec_call\<close> gives the instance after a call, and the
  exception if the call raised.
\<close>

datatype call = Train "entry list" | Predict int "entry list"

definition exec_call ::
  "(real list list \<Rightarrow> real list \<Rightarrow> linreg) \<Rightarrow> (string \<Rightarrow> timestamp option) \<Rightarrow> predictor
     \<Rightarrow> call \<Rightarrow> predictor \<times> error option" where
  "exec_call ols p self c =
     (case c of
        Train expenses \<Rightarrow>
          (case expense_train ols p self expenses of
             (self, Inl e) \<Rightarrow> (self, Some e)
           | (self, Inr _) \<Rightarrow> (self, None))
      | Predict now_month expenses \<Rightarrow>
          (case expense_predict ols p now_month self expenses of
             (self, Inl e) \<Rightarrow> (self, Some e)
           | (self, Inr _) \<Rightarrow> (self, None)))"

definition trained_on :: "predictor \<Rightarrow> call \<Rightarrow> entry list option" where
  \<comment> \<open>the data that a call hands to \<^verbatim>\<open>train\<close>, if it calls \<^verbatim>\<open>train\<close> at all\<close>
  "trained_on self c =
     (case c of
        Train expenses \<Rightarrow> Some expenses
      | Predict now_month expenses \<Rightarrow>
          if length expenses < 3 \<or> is_trained self then None else Some expenses)"

text \<open>
  \<open>run\<close> executes a sequence of calls, none of which raises (\<open>None\<close> if one does), and
  keeps beside the instance the vocabulary captured at the most recent successful
  training: whenever a call has trained and left the instance trained, that is the
  vocabulary of the category column it trained on.
\<close>

fun run ::
  "(real list list \<Rightarrow> real list \<Rightarrow> linreg) \<Rightarrow> (string \<Rightarrow> timestamp option)
     \<Rightarrow> predictor \<times> label list option \<Rightarrow> call list \<Rightarrow> (predictor \<times> label list option) option" where
  "run ols p (self, captured) [] = Some (self, captured)"
| "run ols p (self, captured) (c # cs) =
     (case exec_call ols p self c of
        (self', Some e) \<Rightarrow> None
      | (self', None) \<Rightarrow>
          run ols p
            (self', case trained_on self c of
                      None \<Rightarrow> captured
                    | Some expenses \<Rightarrow>
                        if is_trained self' then Some (encoder_fit (map category expenses))
                        else captured)
            cs)"

section \<open>Example data\<close>

text \<open>
  The timestamps of the date strings used in the examples below, as the library parses
  them (1 January, 5 February and 4 March 2024 were Mondays, day 0 of the week); in
  the examples every other string stands for one that cannot be parsed.
\<close>

definition example_dates :: "string \<Rightarrow> timestamp option" where
  "example_dates =
     map_of [(''2024-01-01'', \<lparr>year = 2024, month = 1, dayofweek = 0\<rparr>),
             (''2024-01-02'', \<lparr>year = 2024, month = 1, dayofweek = 1\<rparr>),
             (''2024-02-05'', \<lparr>year = 2024, month = 2, dayofweek = 0\<rparr>),
             (''2024-03-04'', \<lparr>year = 2024, month = 3, dayofweek = 0\<rparr>)]"

definition salary_60000 :: "entry list" where
  "salary_60000 =
     [\<lparr>category = None, source = Some ''salary'', amount = Some 60000, date = Some ''2024-01-01''\<rparr>]"

definition two_expenses :: "entry list" where
  "two_expenses =
     [\<lparr>category = Some ''housing'', source = None, amount = Some 10, date = Some ''2024-01-01''\<rparr>,
      \<lparr>category = Some ''food'', source = None, amount = Some 90, date = Some ''2024-01-02''\<rparr>]"

definition cents_expenses :: "entry list" where
  "cents_expenses =
     [\<lparr>category = Some ''housing'', source = None, amount = Some 1, date = Some ''2024-01-01''\<rparr>,
      \<lparr>category = Some ''food'', source = None, amount = Some (9901 / 100), date = Some ''2024-01-02''\<rparr>]"

definition one_income :: "entry list" where
  "one_income =
     [\<lparr>category = None, source = Some ''salary'', amount = Some 100, date = Some ''2024-01-01''\<rparr>]"

definition one_expense :: "entry list" where
  "one_expense =
     [\<lparr>category = Some ''food'', source = None, amount = Some 40, date = Some ''2024-01-02''\<rparr>]"

definition january_march_income :: "entry list" where
  "january_march_income =
     [\<lparr>category = None, source = Some ''salary'', amount = Some 500, date = Some ''2024-01-01''\<rparr>,
      \<lparr>category = None, source = Some ''salary'', amount = Some 500, date = Some ''2024-03-04''\<rparr>]"

definition one_expense_400 :: "entry list" where
  "one_expense_400 =
     [\<lparr>category = Some ''food'', source = None, amount = Some 400, date = Some ''2024-01-02''\<rparr>]"

definition bad_date_income :: "entry list" where
  "bad_date_income =
     [\<lparr>category = None, source = Some ''salary'', amount = Some 500, date = Some ''2024-01-01''\<rparr>,
      \<lparr>category = None, source = Some ''salary'', amount = Some 500, date = Some ''soon''\<rparr>]"

definition undated_income :: "entry list" where
  "undated_income =
     [\<lparr>category = None, source = Some ''salary'', amount = Some 500, date = None\<rparr>,
      \<lparr>category = None, source = Some ''salary'', amount = Some 500, date = None\<rparr>]"

text \<open>
  The least-squares fit, as \<^verbatim>\<open>LinearRegression\<close> computes it (the solution of least
  norm of the centred problem), for data in which no column other than column \<open>k\<close>
  varies: the slope of the regression line on column \<open>k\<close>, the coefficient 0 for every
  other column, and the intercept that puts the line through the means. When column
  \<open>k\<close> does not vary either, the slope is 0 (in HOL \<open>x / 0 = 0\<close>) and the intercept is
  the mean of the targets. The examples use it on such data only.
\<close>

definition line_fit :: "nat \<Rightarrow> real list list \<Rightarrow> real list \<Rightarrow> linreg" where
  "line_fit k X y =
     (let xs = map (\<lambda>row. row ! k) X;
          xbar = mean xs;
          ybar = mean y;
          sxx = sum_list (map (\<lambda>x. (x - xbar) * (x - xbar)) xs);
          sxy = sum_list (map2 (\<lambda>x v. (x - xbar) * (v - ybar)) xs y);
          slope = sxy / sxx
      in \<lparr>coef = (replicate (length (hd X)) 0)[k := slope], intercept = ybar - slope * xbar\<rparr>)"

definition trend_fit :: "real list list \<Rightarrow> real list \<Rightarrow> linreg" where
  \<comment> \<open>for the examples: one label, so that column 0 is constant and column 1 is the month\<close>
  "trend_fit = line_fit 1"

definition undated_expenses :: "entry list" where
  "undated_expenses =
     [\<lparr>category = Some ''food'', source = None, amount = Some 100, date = None\<rparr>,
      \<lparr>category = Some ''food'', source = None, amount = Some 120, date = None\<rparr>,
      \<lparr>category = Some ''food'', source = None, amount = Some 110, date = None\<rparr>]"

definition monday_food :: "entry list" where
  "monday_food =
     [\<lparr>category = Some ''food'', source = None, amount = Some 100, date = Some ''2024-01-01''\<rparr>,
      \<lparr>category = Some ''food'', source = None, amount = Some 200, date = Some ''2024-02-05''\<rparr>,
      \<lparr>category = Some ''food'', source = None, amount = Some 300, date = Some ''2024-03-04''\<rparr>]"

definition declining_income :: "entry list" where
  "declining_income =
     [\<lparr>category = None, source = Some ''salary'', amount = Some 300, date = Some ''2024-01-01''\<rparr>,
      \<lparr>category = None, source = Some ''salary'', amount = Some 200, date = Some ''2024-02-05''\<rparr>,
      \<lparr>category = None, source = Some ''salary'', amount = Some 100, date = Some ''2024-03-04''\<rparr>]"

definition negative_income :: "entry list" where
  "negative_income =
     [\<lparr>category = None, source = Some ''salary'', amount = Some (- 100), date = Some ''2024-01-01''\<rparr>,
      \<lparr>category = None, source = Some ''salary'', amount = Some (- 100), date = Some ''2024-01-02''\<rparr>]"

definition one_rent :: "entry list" where
  "one_rent =
     [\<lparr>category = Some ''rent'', source = None, amount = Some 900, date = Some ''2024-01-01''\<rparr>]"

definition rent_without_amount :: "entry list" where
  "rent_without_amount =
     [\<lparr>category = Some ''rent'', source = None, amount = Some 900, date = Some ''2024-01-01''\<rparr>,
      \<lparr>category = Some ''rent'', source = None, amount = None, date = Some ''2024-02-05''\<rparr>]"

section \<open>Rounding\<close>

lemma round2_eq: "x * 100 = of_int k \<Longrightarrow> round2 x = of_int k / 100"
  by (simp add: round2_def round_half_even_def Let_def)

lemma round2_of_int: "round2 (of_int n) = of_int n"
  using round2_eq [of "of_int n" "n * 100"] by simp

lemma round2_numeral: "round2 (numeral n) = numeral n"
  using round2_of_int [of "numeral n"] by simp

lemma round_half_even_bounds: "\<lfloor>y\<rfloor> \<le> round_half_even y \<and> round_half_even y \<le> \<lfloor>y\<rfloor> + 1"
  by (simp add: round_half_even_def Let_def)

lemma round_half_even_mono:
  assumes "x \<le> y"
  shows "round_half_even x \<le> round_half_even y"
proof (cases "\<lfloor>x\<rfloor> = \<lfloor>y\<rfloor>")
  case True
  then show ?thesis using assms by (auto simp: round_half_even_def Let_def)
next
  case False
  then have "\<lfloor>x\<rfloor> < \<lfloor>y\<rfloor>" using assms floor_mono [of x y] by linarith
  then show ?thesis
    using round_half_even_bounds [of x] round_half_even_bounds [of y] by linarith
qed

lemma round2_mono: "x \<le> y \<Longrightarrow> round2 x \<le> round2 y"
  using round_half_even_mono [of "x * 100" "y * 100"] by (simp add: round2_def divide_right_mono)

lemma round_half_even_near:
  "y - 1 / 2 \<le> of_int (round_half_even y) \<and> of_int (round_half_even y) \<le> y + 1 / 2"
proof -
  have a: "of_int \<lfloor>y\<rfloor> \<le> y" and b: "y < of_int \<lfloor>y\<rfloor> + 1" by linarith+
  show ?thesis unfolding round_half_even_def Let_def using a b by (simp; linarith)
qed

lemma round2_near: "x - 1 / 200 \<le> round2 x \<and> round2 x \<le> x + 1 / 200"
  using round_half_even_near [of "x * 100"] by (simp add: round2_def field_simps)

section \<open>The optimizer on empty inputs\<close>

lemma monthly_income_of_empty: "monthly_income_of p [] [] = 50000"
  by (simp add: monthly_income_of_def calculate_total_income_def)

lemma seed_budget_50000:
  "seed_budget 50000 =
     [(''housing'', 15000), (''utilities'', 5000), (''food'', 7500), (''transportation'', 5000),
      (''entertainment'', 2500), (''health'', 5000), (''education'', 2500), (''other'', 7500)]"
  by (simp add: seed_budget_def ideal_allocations_def)

lemma floors_50000:
  "fold (floor_step 50000) minimum_allocations (seed_budget 50000) = seed_budget 50000"
  unfolding seed_budget_50000 minimum_allocations_def
  by (simp add: floor_step_def)

lemma unrounded_budget_empty:
  "unrounded_budget p [] [] None = seed_budget 50000"
  by (simp add: unrounded_budget_def monthly_income_of_empty analyze_spending_patterns_def floors_50000)

lemma optimize_empty:
  "optimize p [] [] None = seed_budget 50000"
  unfolding optimize_def unrounded_budget_empty
  unfolding seed_budget_50000
  by (simp add: round2_numeral)

text \<open>
  C9. With no expenses, no income and no current budget the income resolves to the
  default 50000; the result is the eight fixed categories, each at its ideal share of
  50000, untouched by the floors, the blending and the rounding; the allocations sum
  to 50000, which is within 0.08 of 50000.
\<close>

theorem optimize_empty_default:
  "monthly_income_of p [] [] = 50000
   \<and> optimize p [] [] None =
       [(''housing'', 15000), (''utilities'', 5000), (''food'', 7500), (''transportation'', 5000),
        (''entertainment'', 2500), (''health'', 5000), (''education'', 2500), (''other'', 7500)]
   \<and> optimize p [] [] None = seed_budget (monthly_income_of p [] [])
   \<and> map fst (optimize p [] [] None) = map fst ideal_allocations
   \<and> sum_list (map snd (optimize p [] [] None)) = 50000
   \<and> \<bar>sum_list (map snd (optimize p [] [] None)) - 50000\<bar> \<le> 8 / 100"
  unfolding optimize_empty monthly_income_of_empty
  unfolding seed_budget_50000
  by (simp add: ideal_allocations_def)

section \<open>The floors of the optimizer\<close>

lemma keys_update: "map_of al k = Some v \<Longrightarrow> map fst (AList.update k w al) = map fst al"
  by (simp add: update_keys map_of_eq_Some_iff weak_map_of_SomeI domI dom_map_of_conv_image_fst [symmetric])

lemma map_of_floor_step:
  "map_of (floor_step mi (c, m) ob) k =
     (if k = c then map_option (max ((m / 100) * mi)) (map_of ob c) else map_of ob k)"
  by (cases "map_of ob c") (auto simp: floor_step_def Let_def update_conv' max_def)

lemma keys_floor_step: "map fst (floor_step mi cm ob) = map fst ob"
  by (cases cm) (auto simp: floor_step_def Let_def keys_update split: option.splits)

lemma keys_adjust_step: "map fst (adjust_step mi cm ob) = map fst ob"
  by (cases cm) (auto simp: adjust_step_def Let_def keys_update split: option.splits)

lemma keys_blend_step: "map fst (blend_step ca ob) = map fst ob"
  by (cases ca) (auto simp: blend_step_def keys_update split: option.splits)

lemma keys_fold:
  assumes "\<And>x ob. map fst (f x ob) = map fst ob"
  shows "map fst (fold f xs ob) = map fst ob"
  by (induction xs arbitrary: ob) (simp_all add: assms)

lemma keys_unrounded:
  "map fst (unrounded_budget p expenses income cb) = map fst ideal_allocations"
  by (simp add: unrounded_budget_def Let_def seed_budget_def keys_fold keys_floor_step
      keys_adjust_step keys_blend_step split_def comp_def split: option.splits)

lemma map_of_fold_floor_step:
  "distinct (map fst ms) \<Longrightarrow>
   map_of (fold (floor_step mi) ms ob) k =
     map_option (\<lambda>v. case map_of ms k of None \<Rightarrow> v | Some m \<Rightarrow> max ((m / 100) * mi) v) (map_of ob k)"
proof (induction ms arbitrary: ob)
  case Nil
  then show ?case by (simp add: option.map_ident)
next
  case (Cons cm ms)
  obtain c m where cm: "cm = (c, m)" by (cases cm)
  from Cons.prems have d: "distinct (map fst ms)" and n: "c \<notin> fst ` set ms" by (auto simp: cm)
  from n have none: "map_of ms c = None" by (simp add: map_of_eq_None_iff)
  show ?case
    by (cases "map_of ob k") (auto simp: cm Cons.IH [OF d] map_of_floor_step none option.map_comp comp_def)
qed

lemma distinct_minimum: "distinct (map fst minimum_allocations)"
  by (simp add: minimum_allocations_def)

lemma map_of_blend_step:
  "map_of (blend_step (c, a) ob) k =
     (if k = c then map_option (\<lambda>v. (a + v) / 2) (map_of ob c) else map_of ob k)"
  by (cases "map_of ob c") (auto simp: blend_step_def update_conv')

lemma floors_after_floor_loop:
  assumes "map_of (fold (floor_step mi) minimum_allocations ob) k = Some v"
    and "map_of minimum_allocations k = Some m"
  shows "(m / 100) * mi \<le> v"
  using assms by (auto simp: map_of_fold_floor_step [OF distinct_minimum])

lemma floors_blend_loop:
  assumes "\<And>k a m. (k, a) \<in> set cb \<Longrightarrow> map_of minimum_allocations k = Some m \<Longrightarrow> (m / 100) * mi \<le> a"
    and "\<And>k v m. map_of ob k = Some v \<Longrightarrow> map_of minimum_allocations k = Some m \<Longrightarrow> (m / 100) * mi \<le> v"
    and "map_of (fold blend_step cb ob) k = Some v"
    and "map_of minimum_allocations k = Some m"
  shows "(m / 100) * mi \<le> v"
  using assms
proof (induction cb arbitrary: ob)
  case Nil
  then show ?case by simp
next
  case (Cons ca cb)
  obtain c a where ca: "ca = (c, a)" by (cases ca)
  have step: "(m' / 100) * mi \<le> v'"
    if "map_of (blend_step (c, a) ob) k' = Some v'" "map_of minimum_allocations k' = Some m'" for k' v' m'
  proof (cases "k' = c")
    case True
    with that have "map_option (\<lambda>v. (a + v) / 2) (map_of ob c) = Some v'"
      by (simp add: map_of_blend_step)
    then obtain u where u: "map_of ob c = Some u" "v' = (a + u) / 2"
      by (cases "map_of ob c") simp_all
    have "(m' / 100) * mi \<le> a" using Cons.prems(1) [of c a m'] that True by (simp add: ca)
    moreover have "(m' / 100) * mi \<le> u" using Cons.prems(2) [of c u m'] u that True by simp
    ultimately show ?thesis using u by simp
  next
    case False
    then show ?thesis using that Cons.prems(2) [of k' v' m'] by (simp add: map_of_blend_step)
  qed
  show ?case
  proof (rule Cons.IH [of "blend_step (c, a) ob"])
    show "\<And>k a m. (k, a) \<in> set cb \<Longrightarrow> map_of minimum_allocations k = Some m \<Longrightarrow> m / 100 * mi \<le> a"
      by (rule Cons.prems(1)) simp_all
    show "\<And>k v m. map_of (blend_step (c, a) ob) k = Some v \<Longrightarrow> map_of minimum_allocations k = Some m \<Longrightarrow> m / 100 * mi \<le> v"
      using step by blast
    show "map_of (fold blend_step cb (blend_step (c, a) ob)) k = Some v"
      using Cons.prems(3) by (simp add: ca)
    show "map_of minimum_allocations k = Some m" by (rule Cons.prems(4))
  qed
qed

lemma unrounded_budget_blend:
  "unrounded_budget p expenses income current_budget =
     fold blend_step (case current_budget of None \<Rightarrow> [] | Some cb \<Rightarrow> cb)
       (fold (floor_step (monthly_income_of p expenses income)) minimum_allocations
          (fold (adjust_step (monthly_income_of p expenses income))
             (analyze_spending_patterns expenses)
             (seed_budget (monthly_income_of p expenses income))))"
  by (cases "analyze_spending_patterns expenses = []")
     (auto simp: unrounded_budget_def Let_def split: option.splits)

lemma floors_unrounded:
  assumes "map_of (unrounded_budget p expenses income current_budget) k = Some u"
    and "map_of minimum_allocations k = Some m"
    and "\<And>cb k a m. current_budget = Some cb \<Longrightarrow> (k, a) \<in> set cb \<Longrightarrow>
            map_of minimum_allocations k = Some m \<Longrightarrow>
            (m / 100) * monthly_income_of p expenses income \<le> a"
  shows "(m / 100) * monthly_income_of p expenses income \<le> u"
proof (rule floors_blend_loop [OF _ _ assms(1) [unfolded unrounded_budget_blend] assms(2)])
  fix k a m
  assume "(k, a) \<in> set (case current_budget of None \<Rightarrow> [] | Some cb \<Rightarrow> cb)"
    and "map_of minimum_allocations k = Some m"
  then show "(m / 100) * monthly_income_of p expenses income \<le> a"
    using assms(3) by (cases current_budget) auto
next
  fix k v m
  assume "map_of (fold (floor_step (monthly_income_of p expenses income)) minimum_allocations
          (fold (adjust_step (monthly_income_of p expenses income))
             (analyze_spending_patterns expenses)
             (seed_budget (monthly_income_of p expenses income)))) k = Some v"
    and "map_of minimum_allocations k = Some m"
  then show "(m / 100) * monthly_income_of p expenses income \<le> v"
    by (rule floors_after_floor_loop)
qed

lemma keys_have_minimum:
  "c \<in> set (map fst ideal_allocations) \<Longrightarrow> \<exists>m. map_of minimum_allocations c = Some m"
  by (auto simp: ideal_allocations_def minimum_allocations_def)

lemma distinct_unrounded: "distinct (map fst (unrounded_budget p expenses income cb))"
  by (simp add: keys_unrounded ideal_allocations_def)

section \<open>The optimizer on the examples\<close>

lemma monthly_income_salary: "monthly_income_of example_dates two_expenses salary_60000 = 60000"
  by (simp add: monthly_income_of_def calculate_total_income_def salary_60000_def has_column_def
      to_datetime_def example_dates_def groupby_month_sum_def month_year_def mean_def amount_sum_def
      List.map_filter_simps Let_def)

lemma monthly_income_two_expenses: "monthly_income_of example_dates two_expenses [] = 100"
  by (simp add: monthly_income_of_def calculate_total_income_def two_expenses_def has_column_def
      amount_sum_def List.map_filter_simps Let_def)

lemma monthly_income_cents: "monthly_income_of example_dates cents_expenses [] = 10001 / 100"
  by (simp add: monthly_income_of_def calculate_total_income_def cents_expenses_def has_column_def
      amount_sum_def List.map_filter_simps Let_def)

lemma spending_two_expenses:
  "analyze_spending_patterns two_expenses = [(''food'', 90), (''housing'', 10)]"
  by (simp add: analyze_spending_patterns_def two_expenses_def has_column_def groupby_category_sum_def
      amount_sum_def List.map_filter_simps Let_def)

lemma spending_cents:
  "analyze_spending_patterns cents_expenses = [(''food'', 990100 / 10001), (''housing'', 10000 / 10001)]"
  by (simp add: analyze_spending_patterns_def cents_expenses_def has_column_def groupby_category_sum_def
      amount_sum_def List.map_filter_simps Let_def)

lemma unrounded_salary_blend:
  "unrounded_budget example_dates two_expenses salary_60000 (Some [(''housing'', 0)]) =
     [(''housing'', 6000), (''utilities'', 6000), (''food'', 9000), (''transportation'', 6000),
      (''entertainment'', 3000), (''health'', 6000), (''education'', 3000), (''other'', 9000)]"
  unfolding unrounded_budget_blend monthly_income_salary spending_two_expenses
  by (simp add: seed_budget_def ideal_allocations_def adjust_step_def
     minimum_allocations_def floor_step_def blend_step_def)

lemma unrounded_two_expenses_blend:
  "unrounded_budget example_dates two_expenses [] (Some [(''housing'', 30)]) =
     [(''housing'', 25), (''utilities'', 10), (''food'', 15), (''transportation'', 10),
      (''entertainment'', 5), (''health'', 10), (''education'', 5), (''other'', 15)]"
  unfolding unrounded_budget_blend monthly_income_two_expenses spending_two_expenses
  by (simp add: seed_budget_def ideal_allocations_def adjust_step_def
     minimum_allocations_def floor_step_def blend_step_def)

lemma unrounded_cents:
  "unrounded_budget example_dates cents_expenses [] None =
     [(''housing'', 20002 / 1000), (''utilities'', 10001 / 1000), (''food'', 30003 / 2000),
      (''transportation'', 10001 / 1000), (''entertainment'', 10001 / 2000),
      (''health'', 10001 / 1000), (''education'', 10001 / 2000), (''other'', 30003 / 2000)]"
  unfolding unrounded_budget_blend monthly_income_cents spending_cents
  by (simp add: seed_budget_def ideal_allocations_def adjust_step_def
     minimum_allocations_def floor_step_def Let_def)

lemma round2_20002: "round2 (10001 / 500) = 20"
  by (simp add: round2_def round_half_even_def Let_def)

text \<open>
  Without a current budget the rounding alone can take an allocation below the exact
  floor: the expenses total 100.01, the housing floor is 20.002, the allocation
  returned is 20.00.
\<close>

lemma optimize_rounds_below_floor:
  "(''housing'', 20) \<in> set (optimize example_dates cents_expenses [] None)
   \<and> map_of minimum_allocations ''housing'' = Some 20
   \<and> (20 / 100) * monthly_income_of example_dates cents_expenses [] = 20002 / 1000"
  unfolding optimize_def unrounded_cents monthly_income_cents
  by (simp add: round2_20002 minimum_allocations_def)

text \<open>
  C1, as stated, fails: the blending with the current budget comes after the floors.
  Income 60000 in one month, expenses of 10 on housing and 90 on food, current budget
  0 for housing: the housing allocation goes to its floor 12000 and is then averaged
  with 0, so 6000 is returned.
\<close>

theorem optimize_floor_counterexample:
  "(''housing'', 6000) \<in> set (optimize example_dates two_expenses salary_60000 (Some [(''housing'', 0)]))
   \<and> map_of minimum_allocations ''housing'' = Some 20
   \<and> monthly_income_of example_dates two_expenses salary_60000 = 60000
   \<and> \<not> ((20 / 100) * monthly_income_of example_dates two_expenses salary_60000 \<le> (6000 :: real))"
  unfolding optimize_def unrounded_salary_blend monthly_income_salary
  by (simp add: round2_numeral minimum_allocations_def)

text \<open>
  C1, amended. When no current budget is given, or every amount of the current budget
  is itself at least the floor of its category, every allocation returned is the
  rounding of a value that is at least the floor \<open>minimum_percentage / 100 * monthly_income\<close>;
  so it is at least the rounded floor, and less than the exact floor by 0.005 at most.
\<close>

theorem optimize_floor_holds:
  assumes "(c, v) \<in> set (optimize p expenses income current_budget)"
    and "\<And>cb k a m. current_budget = Some cb \<Longrightarrow> (k, a) \<in> set cb \<Longrightarrow>
            map_of minimum_allocations k = Some m \<Longrightarrow>
            (m / 100) * monthly_income_of p expenses income \<le> a"
  shows "\<exists>m u. map_of minimum_allocations c = Some m
           \<and> (c, u) \<in> set (unrounded_budget p expenses income current_budget)
           \<and> v = round2 u
           \<and> (m / 100) * monthly_income_of p expenses income \<le> u
           \<and> round2 ((m / 100) * monthly_income_of p expenses income) \<le> v
           \<and> (m / 100) * monthly_income_of p expenses income - 1 / 200 \<le> v"
proof -
  let ?mi = "monthly_income_of p expenses income"
  let ?ub = "unrounded_budget p expenses income current_budget"
  from assms(1) obtain u where u: "(c, u) \<in> set ?ub" and v: "v = round2 u"
    by (auto simp: optimize_def)
  from u have "c \<in> set (map fst ?ub)" by force
  then obtain m where m: "map_of minimum_allocations c = Some m"
    using keys_have_minimum by (auto simp: keys_unrounded)
  from u have mu: "map_of ?ub c = Some u"
    using distinct_unrounded by simp
  have le: "(m / 100) * ?mi \<le> u"
    using floors_unrounded [OF mu m] assms(2) by blast
  have "round2 ((m / 100) * ?mi) \<le> v" unfolding v by (rule round2_mono [OF le])
  moreover have "(m / 100) * ?mi - 1 / 200 \<le> v"
    using round2_near [of u] le unfolding v by linarith
  ultimately show ?thesis using m u v le by blast
qed

theorem optimize_floor_holds_witness:
  "(''housing'', 25) \<in> set (optimize example_dates two_expenses [] (Some [(''housing'', 30)]))
   \<and> (20 / 100) * monthly_income_of example_dates two_expenses [] \<le> (30 :: real)
   \<and> (\<exists>m u. map_of minimum_allocations ''housing'' = Some m
           \<and> (''housing'', u) \<in> set (unrounded_budget example_dates two_expenses [] (Some [(''housing'', 30)]))
           \<and> 25 = round2 u
           \<and> (m / 100) * monthly_income_of example_dates two_expenses [] \<le> u
           \<and> round2 ((m / 100) * monthly_income_of example_dates two_expenses []) \<le> 25
           \<and> (m / 100) * monthly_income_of example_dates two_expenses [] - 1 / 200 \<le> 25)"
proof -
  have h1: "(''housing'', 25) \<in> set (optimize example_dates two_expenses [] (Some [(''housing'', 30)]))"
    unfolding optimize_def unrounded_two_expenses_blend by (simp add: round2_numeral)
  have h2: "(m / 100) * monthly_income_of example_dates two_expenses [] \<le> a"
    if "Some [(''housing'', 30)] = Some cb" "(k, a) \<in> set cb" "map_of minimum_allocations k = Some m"
    for cb k a m
    using that by (auto simp: monthly_income_two_expenses minimum_allocations_def)
  show ?thesis
    using optimize_floor_holds [of "''housing''" 25 example_dates two_expenses "[]" "Some [(''housing'', 30)]", OF h1 h2]
      h1
    by (simp add: monthly_income_two_expenses)
qed

section \<open>SavingsPredictor: the forecast\<close>

lemma forecast_loop_append:
  "forecast_loop n s acc = acc @ map (\<lambda>k. s * growth_rate ^ k) [0..<n]"
proof (induction n arbitrary: s acc)
  case 0
  then show ?case by simp
next
  case (Suc n)
  have "map (\<lambda>k. s * growth_rate ^ k) [0..<Suc n]
      = s # map (\<lambda>k. s * growth_rate * growth_rate ^ k) [0..<n]"
    by (simp add: upt_conv_Cons map_Suc_upt [symmetric] mult.assoc del: upt_Suc)
  then show ?case by (simp add: Suc.IH del: upt_Suc)
qed

lemma next_month_savings_predict:
  "six_month_forecast (snd (savings_predict p self sd io eo))
     = forecast_loop 6 (next_month (snd (savings_predict p self sd io eo))) []"
  by (simp add: savings_predict_def Let_def split_def)

text \<open>
  C7. Whatever value S \<^verbatim>\<open>predict\<close> returns as \<^verbatim>\<open>next_month\<close>, the forecast it returns
  has the six entries S, S * 1.02, ..., S * 1.02^5: its first entry is S itself, and
  entry k is S * 1.02^k.
\<close>

theorem savings_forecast_growth:
  "six_month_forecast (snd (savings_predict p self savings_data income_data expense_data)) =
     [next_month (snd (savings_predict p self savings_data income_data expense_data)),
      next_month (snd (savings_predict p self savings_data income_data expense_data)) * (102 / 100),
      next_month (snd (savings_predict p self savings_data income_data expense_data)) * (102 / 100) ^ 2,
      next_month (snd (savings_predict p self savings_data income_data expense_data)) * (102 / 100) ^ 3,
      next_month (snd (savings_predict p self savings_data income_data expense_data)) * (102 / 100) ^ 4,
      next_month (snd (savings_predict p self savings_data income_data expense_data)) * (102 / 100) ^ 5]
   \<and> length (six_month_forecast (snd (savings_predict p self savings_data income_data expense_data))) = 6
   \<and> hd (six_month_forecast (snd (savings_predict p self savings_data income_data expense_data)))
       = next_month (snd (savings_predict p self savings_data income_data expense_data))"
proof -
  have six: "[0..<6] = [0, 1, 2, 3, 4, 5 :: nat]"
    by (simp add: upt_rec)
  show ?thesis
    unfolding next_month_savings_predict forecast_loop_append six
    by (simp add: growth_rate_def)
qed

section \<open>SavingsPredictor: the instance state\<close>

lemma calculate_monthly_savings_state:
  "fst (calculate_monthly_savings p self income_data expense_data) =
     (if income_data \<noteq> [] \<and> expense_data \<noteq> [] \<and> has_column amount income_data
         \<and> has_column amount expense_data \<and> amount_sum income_data > 0
      then self\<lparr>savings_rate :=
                   (amount_sum income_data - amount_sum expense_data) / amount_sum income_data\<rparr>
      else self)"
  by (simp add: calculate_monthly_savings_def Let_def split: option.splits)

lemma savings_predict_state:
  "fst (savings_predict p self savings_data income_data expense_data) =
     (if truthy income_data \<and> truthy expense_data
      then fst (calculate_monthly_savings p self (the income_data) (the expense_data))
      else self)"
  by (simp add: savings_predict_def Let_def split_def)

lemma savings_predict_rate:
  "savings_rate_percent (snd (savings_predict p self savings_data income_data expense_data)) =
     savings_rate (fst (savings_predict p self savings_data income_data expense_data)) * 100"
  by (simp add: savings_predict_def Let_def split_def)

lemma one_income_facts:
  "one_income \<noteq> []" "has_column amount one_income" "amount_sum one_income = 100"
  by (simp_all add: one_income_def has_column_def amount_sum_def List.map_filter_simps)

lemma one_expense_facts:
  "one_expense \<noteq> []" "has_column amount one_expense" "amount_sum one_expense = 40"
  by (simp_all add: one_expense_def has_column_def amount_sum_def List.map_filter_simps)

text \<open>
  C2, as stated, fails: \<^verbatim>\<open>calculate_monthly_savings\<close> assigns \<^verbatim>\<open>self.savings_rate\<close>.
  A fresh instance has the rate 0.1; after \<^verbatim>\<open>predict\<close> with an income of 100 and an
  expense of 40 it has the rate 0.6, and a second call on the same instance, given
  savings data only, reports 60 percent where a fresh instance reports 10.
\<close>

theorem savings_predict_state_counterexample:
  "savings_rate new_savings_predictor = 1 / 10
   \<and> savings_rate (fst (savings_predict example_dates new_savings_predictor []
                          (Some one_income) (Some one_expense))) = 6 / 10
   \<and> savings_rate (fst (calculate_monthly_savings example_dates new_savings_predictor
                          one_income one_expense)) = 6 / 10
   \<and> savings_rate_percent (snd (savings_predict example_dates
        (fst (savings_predict example_dates new_savings_predictor [] (Some one_income) (Some one_expense)))
        [] None None)) = 60
   \<and> savings_rate_percent (snd (savings_predict example_dates new_savings_predictor [] None None)) = 10"
  by (simp add: savings_predict_rate savings_predict_state calculate_monthly_savings_state truthy_def
      one_income_facts one_expense_facts new_savings_predictor_def)

text \<open>
  C2, amended. \<^verbatim>\<open>calculate_monthly_savings\<close> changes the instance in one way only: when
  both lists are non-empty, both have an amount column and the total income is positive,
  it sets \<^verbatim>\<open>savings_rate\<close> to total savings over total income; otherwise the instance
  is unchanged. \<^verbatim>\<open>predict\<close> changes the instance exactly as the call of
  \<^verbatim>\<open>calculate_monthly_savings\<close> that it makes when income and expense data are both
  given and non-empty, and not at all otherwise; the rate it reports is the rate of the
  instance after the call.
\<close>

theorem savings_predictor_frame:
  "fst (calculate_monthly_savings p self income expenses) =
     (if income \<noteq> [] \<and> expenses \<noteq> [] \<and> has_column amount income
         \<and> has_column amount expenses \<and> amount_sum income > 0
      then self\<lparr>savings_rate := (amount_sum income - amount_sum expenses) / amount_sum income\<rparr>
      else self)
   \<and> fst (savings_predict p self savings_data income_data expense_data) =
     (if truthy income_data \<and> truthy expense_data
      then fst (calculate_monthly_savings p self (the income_data) (the expense_data))
      else self)
   \<and> fst (savings_predict p self savings_data None None) = self
   \<and> savings_rate_percent (snd (savings_predict p self savings_data income_data expense_data)) =
       savings_rate (fst (savings_predict p self savings_data income_data expense_data)) * 100"
  by (simp add: calculate_monthly_savings_state savings_predict_state savings_predict_rate truthy_def)

theorem savings_predictor_frame_witness:
  "fst (calculate_monthly_savings example_dates new_savings_predictor one_income one_expense)
     = \<lparr>savings_rate = 6 / 10\<rparr>
   \<and> fst (savings_predict example_dates new_savings_predictor [] (Some one_income) (Some one_expense))
     = \<lparr>savings_rate = 6 / 10\<rparr>
   \<and> fst (savings_predict example_dates new_savings_predictor [] (Some one_income) (Some []))
     = new_savings_predictor
   \<and> fst (savings_predict example_dates new_savings_predictor [] None None) = new_savings_predictor"
  using savings_predictor_frame [of example_dates new_savings_predictor one_income one_expense
      "[]" "Some one_income" "Some one_expense"]
    savings_predictor_frame [of example_dates new_savings_predictor one_income one_expense
      "[]" "Some one_income" "Some []"]
  by (simp add: truthy_def one_income_facts one_expense_facts new_savings_predictor_def)

section \<open>SavingsPredictor: the monthly savings\<close>

lemma not_later_trans: "\<not> later a b \<Longrightarrow> \<not> later b c \<Longrightarrow> \<not> later a c"
  by (auto simp: later_def)

lemma later_asym: "later a b \<Longrightarrow> \<not> later b a"
  by (auto simp: later_def)

lemma date_min_least:
  "date_min t ts \<in> set (t # ts) \<and> (\<forall>a \<in> set (t # ts). \<not> later (date_min t ts) a)"
proof (induction ts arbitrary: t)
  case Nil
  then show ?case by (simp add: date_min_def later_def)
next
  case (Cons a ts)
  show ?case
  proof (cases "later t a")
    case True
    then have unfold: "date_min t (a # ts) = date_min a ts" by (simp add: date_min_def)
    from Cons.IH [of a] have m: "date_min a ts \<in> set (a # ts)"
      and l: "\<And>x. x \<in> set (a # ts) \<Longrightarrow> \<not> later (date_min a ts) x" by blast+
    have "\<not> later (date_min a ts) t"
      using not_later_trans [OF l [of a] later_asym [OF True]] by simp
    with m l show ?thesis unfolding unfold by auto
  next
    case False
    then have unfold: "date_min t (a # ts) = date_min t ts" by (simp add: date_min_def)
    from Cons.IH [of t] have m: "date_min t ts \<in> set (t # ts)"
      and l: "\<And>x. x \<in> set (t # ts) \<Longrightarrow> \<not> later (date_min t ts) x" by blast+
    have "\<not> later (date_min t ts) a"
      using not_later_trans [OF l [of t] False] by simp
    with m l show ?thesis unfolding unfold by auto
  qed
qed

lemma date_max_greatest:
  "date_max t ts \<in> set (t # ts) \<and> (\<forall>a \<in> set (t # ts). \<not> later a (date_max t ts))"
proof (induction ts arbitrary: t)
  case Nil
  then show ?case by (simp add: date_max_def later_def)
next
  case (Cons a ts)
  show ?case
  proof (cases "later a t")
    case True
    then have unfold: "date_max t (a # ts) = date_max a ts" by (simp add: date_max_def)
    from Cons.IH [of a] have m: "date_max a ts \<in> set (a # ts)"
      and l: "\<And>x. x \<in> set (a # ts) \<Longrightarrow> \<not> later x (date_max a ts)" by blast+
    have "\<not> later t (date_max a ts)"
      using not_later_trans [OF later_asym [OF True] l [of a]] by simp
    with m l show ?thesis unfolding unfold by auto
  next
    case False
    then have unfold: "date_max t (a # ts) = date_max t ts" by (simp add: date_max_def)
    from Cons.IH [of t] have m: "date_max t ts \<in> set (t # ts)"
      and l: "\<And>x. x \<in> set (t # ts) \<Longrightarrow> \<not> later x (date_max t ts)" by blast+
    have "\<not> later a (date_max t ts)"
      using not_later_trans [OF False l [of t]] by simp
    with m l show ?thesis unfolding unfold by auto
  qed
qed

lemma set_map_filter_id: "set (List.map_filter id ds) = {t. Some t \<in> set ds}"
  by (induction ds) (auto simp: List.map_filter_simps split: option.splits)

lemma same_month: "\<not> later a b \<Longrightarrow> \<not> later b a \<Longrightarrow> year a = year b \<and> month a = month b"
  by (auto simp: later_def)

lemma months_of_range_eq:
  assumes s: "Some s \<in> set ds" and e: "Some e \<in> set ds"
    and least: "\<And>t. Some t \<in> set ds \<Longrightarrow> \<not> later s t"
    and greatest: "\<And>t. Some t \<in> set ds \<Longrightarrow> \<not> later t e"
  shows "months_of_range ds = max 1 ((year e - year s) * 12 + month e - month s)"
proof -
  note mem = set_map_filter_id [of ds]
  with s obtain t ts where ts: "List.map_filter id ds = t # ts"
    by (cases "List.map_filter id ds") auto
  let ?lo = "date_min t ts" and ?hi = "date_max t ts"
  have lo: "Some ?lo \<in> set ds" "\<not> later ?lo s"
    using date_min_least [of t ts] mem ts s by auto
  have hi: "Some ?hi \<in> set ds" "\<not> later e ?hi"
    using date_max_greatest [of t ts] mem ts e by auto
  have "year ?lo = year s \<and> month ?lo = month s"
    using same_month [OF lo(2) least [OF lo(1)]] .
  moreover have "year ?hi = year e \<and> month ?hi = month e"
    using same_month [OF greatest [OF hi(1)] hi(2)] .
  ultimately show ?thesis
    by (simp add: months_of_range_def ts Let_def)
qed

lemma calculate_monthly_savings_value:
  assumes "income_data \<noteq> []" "expense_data \<noteq> []"
    and "has_column amount income_data" "has_column amount expense_data"
  shows "snd (calculate_monthly_savings p self income_data expense_data) =
     (if has_column date income_data then
        (case to_datetime p (map date income_data) of
           Some ds \<Rightarrow> (amount_sum income_data - amount_sum expense_data) / of_int (months_of_range ds)
         | None \<Rightarrow> (amount_sum income_data - amount_sum expense_data) / real (max 1 (length income_data)))
      else (amount_sum income_data - amount_sum expense_data) / real (max 1 (length income_data)))"
  using assms by (simp add: calculate_monthly_savings_def Let_def split: option.splits)

lemma january_march_facts:
  "january_march_income \<noteq> []" "has_column amount january_march_income"
  "has_column date january_march_income" "amount_sum january_march_income = 1000"
  "to_datetime example_dates (map date january_march_income) =
     Some [Some \<lparr>year = 2024, month = 1, dayofweek = 0\<rparr>, Some \<lparr>year = 2024, month = 3, dayofweek = 0\<rparr>]"
  by (simp_all add: january_march_income_def has_column_def amount_sum_def List.map_filter_simps
      to_datetime_def example_dates_def)

lemma one_expense_400_facts:
  "one_expense_400 \<noteq> []" "has_column amount one_expense_400" "amount_sum one_expense_400 = 400"
  by (simp_all add: one_expense_400_def has_column_def amount_sum_def List.map_filter_simps)

lemma bad_date_facts:
  "bad_date_income \<noteq> []" "has_column amount bad_date_income"
  "has_column date bad_date_income" "amount_sum bad_date_income = 1000"
  "to_datetime example_dates (map date bad_date_income) = None" "length bad_date_income = 2"
  by (simp_all add: bad_date_income_def has_column_def amount_sum_def List.map_filter_simps
      to_datetime_def example_dates_def)

lemma undated_facts:
  "undated_income \<noteq> []" "has_column amount undated_income"
  "\<not> has_column date undated_income" "amount_sum undated_income = 1000"
  "length undated_income = 2"
  by (simp_all add: undated_income_def has_column_def amount_sum_def List.map_filter_simps)

text \<open>
  C3, as stated, fails: the divisor is not the inclusive span of months. Incomes of 500
  dated January and March 2024 and an expense of 400 leave total savings of 600; the
  inclusive span from January to March is 3 months, which would give 200, but the code
  divides by the difference 3 - 1 = 2 and returns 300.
\<close>

theorem monthly_savings_span_counterexample:
  "amount_sum january_march_income - amount_sum one_expense_400 = 600
   \<and> to_datetime example_dates (map date january_march_income) =
       Some [Some \<lparr>year = 2024, month = 1, dayofweek = 0\<rparr>, Some \<lparr>year = 2024, month = 3, dayofweek = 0\<rparr>]
   \<and> snd (calculate_monthly_savings example_dates new_savings_predictor
            january_march_income one_expense_400) = 300
   \<and> snd (calculate_monthly_savings example_dates new_savings_predictor
            january_march_income one_expense_400)
       \<noteq> 600 / of_int ((2024 - 2024) * 12 + 3 - 1 + 1)"
  by (simp add: calculate_monthly_savings_value january_march_facts one_expense_400_facts
      months_of_range_def List.map_filter_simps date_min_def date_max_def later_def)

text \<open>
  C3, amended. For non-empty income and expense data that both have an amount column:
  when the income has a date column and the dates parse, the result is the total
  savings divided by \<open>max 1 d\<close>, where \<open>d\<close> is the difference in months between the
  earliest and the latest income date, \<open>(year e - year s) * 12 + month e - month s\<close>
  (not counting the first month); when a date does not parse, or there is no date
  column, the result is the total savings divided by \<open>max 1 (number of income records)\<close>.
\<close>

theorem monthly_savings_divisor:
  assumes "income_data \<noteq> []" and "expense_data \<noteq> []"
    and "has_column amount income_data" and "has_column amount expense_data"
  shows "(has_column date income_data \<longrightarrow> to_datetime p (map date income_data) = Some ds \<longrightarrow>
            Some s \<in> set ds \<longrightarrow> Some e \<in> set ds \<longrightarrow>
            (\<forall>t. Some t \<in> set ds \<longrightarrow> \<not> later s t \<and> \<not> later t e) \<longrightarrow>
            snd (calculate_monthly_savings p self income_data expense_data) =
              (amount_sum income_data - amount_sum expense_data)
                / of_int (max 1 ((year e - year s) * 12 + month e - month s)))
       \<and> (has_column date income_data \<longrightarrow> to_datetime p (map date income_data) = None \<longrightarrow>
            snd (calculate_monthly_savings p self income_data expense_data) =
              (amount_sum income_data - amount_sum expense_data) / real (max 1 (length income_data)))
       \<and> (\<not> has_column date income_data \<longrightarrow>
            snd (calculate_monthly_savings p self income_data expense_data) =
              (amount_sum income_data - amount_sum expense_data) / real (max 1 (length income_data)))"
  using assms
  by (auto simp: calculate_monthly_savings_value months_of_range_eq)

theorem monthly_savings_divisor_witness:
  "snd (calculate_monthly_savings example_dates new_savings_predictor
          january_march_income one_expense_400) = 600 / 2
   \<and> snd (calculate_monthly_savings example_dates new_savings_predictor
          bad_date_income one_expense_400) = 600 / 2
   \<and> snd (calculate_monthly_savings example_dates new_savings_predictor
          undated_income one_expense_400) = 600 / 2"
proof -
  let ?s = "\<lparr>year = 2024, month = 1, dayofweek = 0\<rparr>" and ?e = "\<lparr>year = 2024, month = 3, dayofweek = 0\<rparr>"
  have a: "snd (calculate_monthly_savings example_dates new_savings_predictor
          january_march_income one_expense_400) = 600 / 2"
    using monthly_savings_divisor [of january_march_income one_expense_400 example_dates
        "[Some ?s, Some ?e]" ?s ?e new_savings_predictor]
    by (simp add: january_march_facts one_expense_400_facts later_def)
  have b: "snd (calculate_monthly_savings example_dates new_savings_predictor
          bad_date_income one_expense_400) = 600 / 2"
    using monthly_savings_divisor [of bad_date_income one_expense_400 example_dates
        "[]" ?s ?e new_savings_predictor]
    by (simp add: bad_date_facts one_expense_400_facts)
  have c: "snd (calculate_monthly_savings example_dates new_savings_predictor
          undated_income one_expense_400) = 600 / 2"
    using monthly_savings_divisor [of undated_income one_expense_400 example_dates
        "[]" ?s ?e new_savings_predictor]
    by (simp add: undated_facts one_expense_400_facts)
  from a b c show ?thesis by simp
qed

section \<open>The predictors on the examples\<close>

lemma monday_food_train:
  "expense_train trend_fit example_dates new_predictor monday_food =
     (\<lparr>model = Some \<lparr>coef = [0, 100, 0], intercept = 0\<rparr>, encoder = Some [Some ''food''],
       is_trained = True, labels = Some [Some ''food'']\<rparr>, Inr True)"
  by (simp add: expense_train_def expense_prepare_data_def monday_food_def has_column_def
      to_datetime_def example_dates_def encoder_fit_def indicator_def
      List.map_filter_simps fit_model_def trend_fit_def line_fit_def mean_def unique_def new_predictor_def Let_def)

lemma monday_food_fit_exact:
  "linreg_predict \<lparr>coef = [0, 100, 0], intercept = 0\<rparr> [1, 1, 0] = Inr 100
   \<and> linreg_predict \<lparr>coef = [0, 100, 0], intercept = 0\<rparr> [1, 2, 0] = Inr 200
   \<and> linreg_predict \<lparr>coef = [0, 100, 0], intercept = 0\<rparr> [1, 3, 0] = Inr 300"
  by (simp add: linreg_predict_def)

lemma declining_income_train:
  "income_train trend_fit example_dates new_predictor declining_income =
     (\<lparr>model = Some \<lparr>coef = [0, - 100], intercept = 400\<rparr>, encoder = Some [Some ''salary''],
       is_trained = True, labels = Some [Some ''salary'']\<rparr>, Inr True)"
  by (simp add: income_train_def income_prepare_data_def declining_income_def has_column_def
      to_datetime_def example_dates_def encoder_fit_def indicator_def
      List.map_filter_simps fit_model_def trend_fit_def line_fit_def mean_def unique_def new_predictor_def Let_def)

lemma negative_income_train:
  "income_train trend_fit example_dates new_predictor negative_income =
     (\<lparr>model = Some \<lparr>coef = [0, 0], intercept = - 100\<rparr>, encoder = Some [Some ''salary''],
       is_trained = True, labels = Some [Some ''salary'']\<rparr>, Inr True)"
  by (simp add: income_train_def income_prepare_data_def negative_income_def has_column_def
      to_datetime_def example_dates_def encoder_fit_def indicator_def
      List.map_filter_simps fit_model_def trend_fit_def line_fit_def mean_def unique_def new_predictor_def Let_def)

lemma undated_expenses_train:
  "expense_train ols p new_predictor undated_expenses = (new_predictor, Inr False)"
  by (simp add: expense_train_def expense_prepare_data_def undated_expenses_def has_column_def
      new_predictor_def)

section \<open>The shape of what the predictors return\<close>

lemma new_predictor_untrained: "is_trained new_predictor = False"
  by (simp add: new_predictor_def)

lemma those_eq_Some: "those xs = Some ys \<longleftrightarrow> xs = map Some ys"
proof (induction xs arbitrary: ys)
  case Nil
  then show ?case by auto
next
  case (Cons x xs)
  then show ?case by (cases x; cases ys) (auto split: option.splits)
qed

lemma expense_train_False:
  "expense_train ols p self expenses = (self', Inr False) \<Longrightarrow> \<not> is_trained self'"
  by (auto simp: expense_train_def split: prod.splits sum.splits option.splits if_splits)

lemma expense_train_True:
  "expense_train ols p self expenses = (self', Inr True) \<Longrightarrow> is_trained self'"
  by (auto simp: expense_train_def split: prod.splits sum.splits option.splits if_splits)

lemma expense_predict_cases:
  assumes "expense_predict ols p now_month self expenses = (self', Inr r)"
  shows "(r = zero_prediction \<and> (length expenses < 3 \<or> \<not> is_trained self'))
         \<or> (3 \<le> length expenses \<and> is_trained self'
             \<and> (\<exists>ps. predict_each (predict_category self' (next_month_of now_month))
                        (expense_categories expenses) = Inr ps
                      \<and> r = \<lparr>total = sum_list (map snd ps), breakdown = ps\<rparr>))"
  using assms
  by (auto simp: expense_predict_def split: if_splits prod.splits sum.splits)

lemma income_predict_cases:
  assumes "income_predict ols p now_month self income_data = (self', Inr r)"
  shows "(r = \<lparr>total = 0, breakdown = []\<rparr> \<and> (length income_data < 2 \<or> \<not> is_trained self'))
         \<or> (2 \<le> length income_data \<and> is_trained self'
             \<and> (\<exists>ps. predict_each (predict_source self' (next_month_of now_month))
                        (income_sources income_data) = Inr ps
                      \<and> breakdown r = ps
                      \<and> (if sum_list (map snd ps) = 0
                          then \<exists>amounts. those (map amount income_data) = Some amounts
                                 \<and> total r = sum_list amounts / real (length amounts)
                          else total r = sum_list (map snd ps))))"
  using assms
  by (auto simp: income_predict_def Let_def split: if_splits prod.splits sum.splits option.splits)

lemma day_loop_nonneg:
  "day_loop m enc nm days acc = Inr v \<Longrightarrow> 0 \<le> acc \<Longrightarrow> 0 \<le> v"
proof (induction days arbitrary: acc)
  case Nil
  then show ?case by simp
next
  case (Cons d days)
  from Cons.prems(1) obtain raw where
    "day_loop m enc nm days (acc + max 0 raw / 7) = Inr v"
    by (auto split: sum.splits)
  moreover have "0 \<le> acc + max 0 raw / 7" using Cons.prems(2) by simp
  ultimately show ?case by (rule Cons.IH)
qed

lemma predict_category_nonneg: "predict_category self nm c = Inr v \<Longrightarrow> 0 \<le> v"
  by (auto simp: predict_category_def split: option.splits sum.splits dest: day_loop_nonneg)

lemma predict_source_nonneg: "predict_source self nm s = Inr v \<Longrightarrow> 0 \<le> v"
  by (auto simp: predict_source_def split: option.splits sum.splits)

lemma predict_each_values:
  assumes "predict_each f cs = Inr ps"
  shows "map fst ps = cs \<and> (\<forall>(c, v) \<in> set ps. f c = Inr v)"
  using assms
proof (induction cs arbitrary: ps)
  case Nil
  then show ?case by simp
next
  case (Cons c cs)
  from Cons.prems obtain v rest where "f c = Inr v" "predict_each f cs = Inr rest" "ps = (c, v) # rest"
    by (auto split: sum.splits)
  with Cons.IH [of rest] show ?case by auto
qed

lemma sum_list_snd_nonneg:
  "(\<forall>(c, v) \<in> set ps. (0 :: real) \<le> v) \<Longrightarrow> 0 \<le> sum_list (map snd ps)"
  by (rule sum_list_nonneg) auto

lemma sum_list_snd_zero:
  "(\<forall>(c, v) \<in> set ps. (0 :: real) \<le> v) \<Longrightarrow> sum_list (map snd ps) = 0 \<Longrightarrow> (c, v) \<in> set ps \<Longrightarrow> v = 0"
proof (induction ps)
  case Nil
  then show ?case by simp
next
  case (Cons a ps)
  obtain c' v' where a: "a = (c', v')" by (cases a)
  from Cons.prems(1) have nn: "0 \<le> v'" "\<forall>(c, v) \<in> set ps. 0 \<le> v" by (auto simp: a)
  then have s: "0 \<le> sum_list (map snd ps)" by (simp add: sum_list_snd_nonneg)
  with Cons.prems(2) nn(1) have z: "v' = 0" "sum_list (map snd ps) = 0" by (auto simp: a)
  show ?case
  proof (cases "(c, v) = a")
    case True
    then show ?thesis using z a by simp
  next
    case False
    then have "(c, v) \<in> set ps" using Cons.prems(3) by simp
    then show ?thesis using Cons.IH nn(2) z(2) by blast
  qed
qed

text \<open>
  C5. With fewer than 3 records (none included) \<^verbatim>\<open>ExpensePredictor.predict\<close> returns
  the total 0 and exactly the 8 canonical categories, each at 0, whatever the state of
  the instance, and leaves the instance as it was. It returns the same when the
  instance is untrained and the training that \<^verbatim>\<open>predict\<close> starts fails, that is,
  \<^verbatim>\<open>train\<close> returns \<^verbatim>\<open>False\<close>.
\<close>

theorem expense_predict_zero_shape:
  "(length expenses < 3 \<longrightarrow>
      expense_predict ols p now_month self expenses = (self, Inr zero_prediction))
   \<and> (\<not> is_trained self \<longrightarrow> snd (expense_train ols p self expenses) = Inr False \<longrightarrow>
      snd (expense_predict ols p now_month self expenses) = Inr zero_prediction)
   \<and> (3 \<le> length expenses \<longrightarrow> \<not> is_trained self \<longrightarrow>
      expense_train ols p self expenses = (self', Inr False) \<longrightarrow>
      expense_predict ols p now_month self expenses = (self', Inr zero_prediction))
   \<and> total zero_prediction = 0
   \<and> breakdown zero_prediction =
       [(Some ''housing'', 0), (Some ''utilities'', 0), (Some ''food'', 0),
        (Some ''transportation'', 0), (Some ''entertainment'', 0), (Some ''health'', 0),
        (Some ''education'', 0), (Some ''other'', 0)]"
proof -
  have long: "expense_predict ols p now_month self expenses = (st, Inr zero_prediction)"
    if "3 \<le> length expenses" "\<not> is_trained self" "expense_train ols p self expenses = (st, Inr False)"
    for st
    using that expense_train_False [OF that(3)]
    by (simp add: expense_predict_def)
  have val: "snd (expense_predict ols p now_month self expenses) = Inr zero_prediction"
    if u: "\<not> is_trained self" and f: "snd (expense_train ols p self expenses) = Inr False"
  proof (cases "length expenses < 3")
    case True
    then show ?thesis by (simp add: expense_predict_def)
  next
    case False
    obtain st where "expense_train ols p self expenses = (st, Inr False)"
      using f by (cases "expense_train ols p self expenses") auto
    with long [of st] False u show ?thesis by simp
  qed
  show ?thesis
    using long [of self'] val
    by (simp add: expense_predict_def zero_prediction_def all_categories_def)
qed

theorem expense_predict_zero_shape_witness:
  "length two_expenses < 3
   \<and> expense_predict trend_fit example_dates 1 new_predictor two_expenses
       = (new_predictor, Inr zero_prediction)
   \<and> \<not> is_trained new_predictor
   \<and> expense_train trend_fit example_dates new_predictor undated_expenses
       = (new_predictor, Inr False)
   \<and> 3 \<le> length undated_expenses
   \<and> expense_predict trend_fit example_dates 1 new_predictor undated_expenses
       = (new_predictor, Inr zero_prediction)"
proof -
  have l2: "length two_expenses < 3" by (simp add: two_expenses_def)
  have l3: "3 \<le> length undated_expenses" by (simp add: undated_expenses_def)
  note t = undated_expenses_train [of trend_fit example_dates]
  have a: "expense_predict trend_fit example_dates 1 new_predictor two_expenses
       = (new_predictor, Inr zero_prediction)"
    using expense_predict_zero_shape [of two_expenses trend_fit example_dates 1 new_predictor new_predictor]
      l2 by blast
  have b: "expense_predict trend_fit example_dates 1 new_predictor undated_expenses
       = (new_predictor, Inr zero_prediction)"
    using expense_predict_zero_shape [of undated_expenses trend_fit example_dates 1 new_predictor new_predictor]
      l3 t new_predictor_untrained by blast
  from a b l2 l3 t show ?thesis by (simp add: new_predictor_untrained)
qed

section \<open>The predictions on the examples\<close>

lemma week: "[0..<7] = [0, 1, 2, 3, 4, 5, 6 :: nat]"
  by (simp add: upt_rec)

lemma monday_food_day_loop:
  "day_loop \<lparr>coef = [0, 100, 0], intercept = 0\<rparr> [e] 3 [0..<7] 0 = Inr 300"
  "day_loop \<lparr>coef = [0, 100, 0], intercept = 0\<rparr> [e] 4 [0..<7] 0 = Inr 400"
  unfolding week by (simp_all add: linreg_predict_def)

lemma monday_food_categories:
  "expense_categories monday_food =
     [Some ''food'', Some ''housing'', Some ''utilities'', Some ''transportation'',
      Some ''entertainment'', Some ''health'', Some ''education'', Some ''other'']"
  by (simp add: expense_categories_def monday_food_def has_column_def unique_def
      all_categories_def Let_def)

lemma monday_food_length: "\<not> length monday_food < 3"
  by (simp add: monday_food_def)

lemma monday_food_predict:
  "expense_predict trend_fit example_dates 2 new_predictor monday_food =
     (\<lparr>model = Some \<lparr>coef = [0, 100, 0], intercept = 0\<rparr>, encoder = Some [Some ''food''],
       is_trained = True, labels = Some [Some ''food'']\<rparr>,
      Inr \<lparr>total = 2400,
           breakdown = [(Some ''food'', 300), (Some ''housing'', 300), (Some ''utilities'', 300),
             (Some ''transportation'', 300), (Some ''entertainment'', 300), (Some ''health'', 300),
             (Some ''education'', 300), (Some ''other'', 300)]\<rparr>)"
  "expense_predict trend_fit example_dates 3 new_predictor monday_food =
     (\<lparr>model = Some \<lparr>coef = [0, 100, 0], intercept = 0\<rparr>, encoder = Some [Some ''food''],
       is_trained = True, labels = Some [Some ''food'']\<rparr>,
      Inr \<lparr>total = 3200,
           breakdown = [(Some ''food'', 400), (Some ''housing'', 400), (Some ''utilities'', 400),
             (Some ''transportation'', 400), (Some ''entertainment'', 400), (Some ''health'', 400),
             (Some ''education'', 400), (Some ''other'', 400)]\<rparr>)"
  by (simp_all add: expense_predict_def monday_food_length new_predictor_untrained
      monday_food_train monday_food_categories next_month_of_def predict_category_def
      encoder_transform_def indicator_def monday_food_day_loop)

lemma declining_income_facts:
  "\<not> length declining_income < 2" "2 \<le> length declining_income"
  "income_sources declining_income = [Some ''salary'']"
  "those (map amount declining_income) = Some [300, 200, 100]"
  by (simp_all add: declining_income_def income_sources_def has_column_def unique_def Let_def)

lemma negative_income_facts:
  "\<not> length negative_income < 2" "2 \<le> length negative_income"
  "income_sources negative_income = [Some ''salary'']"
  "those (map amount negative_income) = Some [- 100, - 100]"
  by (simp_all add: negative_income_def income_sources_def has_column_def unique_def Let_def)

lemma declining_income_predict:
  "income_predict trend_fit example_dates 1 new_predictor declining_income =
     (\<lparr>model = Some \<lparr>coef = [0, - 100], intercept = 400\<rparr>, encoder = Some [Some ''salary''],
       is_trained = True, labels = Some [Some ''salary'']\<rparr>,
      Inr \<lparr>total = 200, breakdown = [(Some ''salary'', 200)]\<rparr>)"
  "income_predict trend_fit example_dates 4 new_predictor declining_income =
     (\<lparr>model = Some \<lparr>coef = [0, - 100], intercept = 400\<rparr>, encoder = Some [Some ''salary''],
       is_trained = True, labels = Some [Some ''salary'']\<rparr>,
      Inr \<lparr>total = 200, breakdown = [(Some ''salary'', 0)]\<rparr>)"
  by (simp_all add: income_predict_def declining_income_facts new_predictor_untrained
      declining_income_train next_month_of_def predict_source_def encoder_transform_def indicator_def
      linreg_predict_def Let_def)

lemma negative_income_predict:
  "income_predict trend_fit example_dates 1 new_predictor negative_income =
     (\<lparr>model = Some \<lparr>coef = [0, 0], intercept = - 100\<rparr>, encoder = Some [Some ''salary''],
       is_trained = True, labels = Some [Some ''salary'']\<rparr>,
      Inr \<lparr>total = - 100, breakdown = [(Some ''salary'', 0)]\<rparr>)"
  by (simp add: income_predict_def negative_income_facts new_predictor_untrained
      negative_income_train next_month_of_def predict_source_def encoder_transform_def indicator_def
      linreg_predict_def Let_def)

section \<open>Non-negative predictions\<close>

text \<open>
  C6, as stated, fails for the total of \<^verbatim>\<open>IncomePredictor.predict\<close>: when the floored
  predictions sum to 0, the total is replaced by the mean of the historical amounts,
  which is not floored. Two salary records of -100 in January: the regression predicts
  -100, floored to 0, and the total returned is the mean -100.
\<close>

theorem income_total_counterexample:
  "income_predict trend_fit example_dates 1 new_predictor negative_income =
     (\<lparr>model = Some \<lparr>coef = [0, 0], intercept = - 100\<rparr>, encoder = Some [Some ''salary''],
       is_trained = True, labels = Some [Some ''salary'']\<rparr>,
      Inr \<lparr>total = - 100, breakdown = [(Some ''salary'', 0)]\<rparr>)
   \<and> linreg_predict \<lparr>coef = [0, 0], intercept = - 100\<rparr> [1, 1] = Inr (- 100)
   \<and> \<not> (0 \<le> (- 100 :: real))"
  by (simp add: negative_income_predict linreg_predict_def)

text \<open>
  C6, amended. Whenever \<^verbatim>\<open>ExpensePredictor.predict\<close> returns, every value of the
  categories mapping and the total are at least 0. Whenever \<^verbatim>\<open>IncomePredictor.predict\<close>
  returns, every value of the sources mapping is at least 0, and the total is at least 0
  if the per-source predictions do not sum to 0 or no historical amount is negative.
\<close>

theorem predictions_nonnegative:
  "(expense_predict ols p now_month self expenses = (self', Inr r) \<longrightarrow>
      0 \<le> total r \<and> (\<forall>(c, v) \<in> set (breakdown r). 0 \<le> v))
   \<and> (income_predict ols p now_month self income_data = (self', Inr r) \<longrightarrow>
      (\<forall>(s, v) \<in> set (breakdown r). 0 \<le> v)
      \<and> (sum_list (map snd (breakdown r)) \<noteq> 0
           \<or> (\<forall>x \<in> set income_data. \<forall>a. amount x = Some a \<longrightarrow> 0 \<le> a)
          \<longrightarrow> 0 \<le> total r))"
proof (intro conjI impI)
  assume e: "expense_predict ols p now_month self expenses = (self', Inr r)"
  have nn: "\<forall>(c, v) \<in> set (breakdown r). 0 \<le> v"
  proof (cases "r = zero_prediction")
    case True
    then show ?thesis by (auto simp: zero_prediction_def)
  next
    case False
    with expense_predict_cases [OF e] obtain ps where
      pe: "predict_each (predict_category self' (next_month_of now_month))
             (expense_categories expenses) = Inr ps" and r: "breakdown r = ps" by auto
    show ?thesis unfolding r
      using predict_each_values [OF pe] by (auto dest: predict_category_nonneg)
  qed
  show "\<forall>(c, v) \<in> set (breakdown r). 0 \<le> v" by (rule nn)
  show "0 \<le> total r"
    using expense_predict_cases [OF e] nn
    by (auto simp: zero_prediction_def intro: sum_list_snd_nonneg)
next
  assume i: "income_predict ols p now_month self income_data = (self', Inr r)"
  show nn: "\<forall>(s, v) \<in> set (breakdown r). 0 \<le> v"
  proof (cases "r = \<lparr>total = 0, breakdown = []\<rparr>")
    case True
    then show ?thesis by simp
  next
    case False
    with income_predict_cases [OF i] obtain ps where
      pe: "predict_each (predict_source self' (next_month_of now_month))
             (income_sources income_data) = Inr ps" and r: "breakdown r = ps" by auto
    show ?thesis unfolding r
      using predict_each_values [OF pe] by (auto dest: predict_source_nonneg)
  qed
  assume h: "sum_list (map snd (breakdown r)) \<noteq> 0
           \<or> (\<forall>x \<in> set income_data. \<forall>a. amount x = Some a \<longrightarrow> 0 \<le> a)"
  from income_predict_cases [OF i] show "0 \<le> total r"
  proof
    assume "r = \<lparr>total = 0, breakdown = []\<rparr> \<and> (length income_data < 2 \<or> \<not> is_trained self')"
    then show ?thesis by simp
  next
    assume "2 \<le> length income_data \<and> is_trained self'
             \<and> (\<exists>ps. predict_each (predict_source self' (next_month_of now_month))
                        (income_sources income_data) = Inr ps
                      \<and> breakdown r = ps
                      \<and> (if sum_list (map snd ps) = 0
                          then \<exists>amounts. those (map amount income_data) = Some amounts
                                 \<and> total r = sum_list amounts / real (length amounts)
                          else total r = sum_list (map snd ps)))"
    then obtain ps where ps: "breakdown r = ps"
      and t: "if sum_list (map snd ps) = 0
              then \<exists>amounts. those (map amount income_data) = Some amounts
                     \<and> total r = sum_list amounts / real (length amounts)
              else total r = sum_list (map snd ps)" by blast
    show ?thesis
    proof (cases "sum_list (map snd ps) = 0")
      case False
      with t nn ps show ?thesis by (simp add: sum_list_snd_nonneg)
    next
      case True
      with t obtain amounts where am: "map amount income_data = map Some amounts"
        and tot: "total r = sum_list amounts / real (length amounts)"
        by (auto simp: those_eq_Some)
      from h True ps have "\<forall>x \<in> set income_data. \<forall>a. amount x = Some a \<longrightarrow> 0 \<le> a" by simp
      moreover have "\<forall>a \<in> set amounts. \<exists>x \<in> set income_data. amount x = Some a"
      proof
        fix a assume "a \<in> set amounts"
        then have "Some a \<in> set (map amount income_data)" unfolding am by simp
        then show "\<exists>x \<in> set income_data. amount x = Some a" by auto
      qed
      ultimately have "\<forall>a \<in> set amounts. 0 \<le> a" by blast
      then have "0 \<le> sum_list amounts" by (simp add: sum_list_nonneg)
      then show ?thesis by (simp add: tot)
    qed
  qed
qed

theorem predictions_nonnegative_witness:
  "expense_predict trend_fit example_dates 2 new_predictor monday_food =
     (\<lparr>model = Some \<lparr>coef = [0, 100, 0], intercept = 0\<rparr>, encoder = Some [Some ''food''],
       is_trained = True, labels = Some [Some ''food'']\<rparr>,
      Inr \<lparr>total = 2400,
           breakdown = [(Some ''food'', 300), (Some ''housing'', 300), (Some ''utilities'', 300),
             (Some ''transportation'', 300), (Some ''entertainment'', 300), (Some ''health'', 300),
             (Some ''education'', 300), (Some ''other'', 300)]\<rparr>)
   \<and> income_predict trend_fit example_dates 4 new_predictor declining_income =
     (\<lparr>model = Some \<lparr>coef = [0, - 100], intercept = 400\<rparr>, encoder = Some [Some ''salary''],
       is_trained = True, labels = Some [Some ''salary'']\<rparr>,
      Inr \<lparr>total = 200, breakdown = [(Some ''salary'', 0)]\<rparr>)
   \<and> list_all (\<lambda>x. case amount x of None \<Rightarrow> True | Some a \<Rightarrow> 0 \<le> a) declining_income
   \<and> (0 :: real) \<le> 2400 \<and> (0 :: real) \<le> 300 \<and> (0 :: real) \<le> 200"
proof -
  let ?se = "\<lparr>model = Some \<lparr>coef = [0, 100, 0], intercept = 0\<rparr>, encoder = Some [Some ''food''],
         is_trained = True, labels = Some [Some ''food'']\<rparr>"
  let ?re = "\<lparr>total = 2400,
         breakdown = [(Some ''food'', 300), (Some ''housing'', 300), (Some ''utilities'', 300),
           (Some ''transportation'', 300), (Some ''entertainment'', 300), (Some ''health'', 300),
           (Some ''education'', 300), (Some ''other'', 300 :: real)]\<rparr>"
  let ?si = "\<lparr>model = Some \<lparr>coef = [0, - 100], intercept = 400\<rparr>, encoder = Some [Some ''salary''],
         is_trained = True, labels = Some [Some ''salary'']\<rparr>"
  let ?ri = "\<lparr>total = 200, breakdown = [(Some ''salary'', 0 :: real)]\<rparr>"
  have e: "expense_predict trend_fit example_dates 2 new_predictor monday_food = (?se, Inr ?re)"
    by (rule monday_food_predict)
  have i: "income_predict trend_fit example_dates 4 new_predictor declining_income = (?si, Inr ?ri)"
    by (rule declining_income_predict)
  have a: "list_all (\<lambda>x. case amount x of None \<Rightarrow> True | Some a \<Rightarrow> 0 \<le> a) declining_income"
    by (simp add: declining_income_def)
  have "0 \<le> total ?re"
    using predictions_nonnegative [of trend_fit example_dates 2 new_predictor monday_food ?se ?re
        declining_income] e by blast
  moreover have "0 \<le> total ?ri"
    using predictions_nonnegative [of trend_fit example_dates 4 new_predictor monday_food ?si ?ri
        declining_income] i a by (auto simp: list_all_iff split: option.splits)
  ultimately show ?thesis using e i a by simp
qed

section \<open>The fallback of the income total\<close>

lemma income_train_True:
  "snd (income_train ols p self income_data) = Inr True \<Longrightarrow>
   is_trained (fst (income_train ols p self income_data))"
  by (auto simp: income_train_def split: prod.splits sum.splits option.splits if_splits)

lemma income_train_amounts:
  "snd (income_train ols p self income_data) = Inr True \<Longrightarrow>
   \<exists>amounts. map amount income_data = map Some amounts"
  by (auto simp: income_train_def income_prepare_data_def fit_model_def Let_def those_eq_Some
      split: prod.splits sum.splits option.splits if_splits)

text \<open>
  C4. Take income data of at least 2 records on which training succeeds, and let the
  per-source predictions, computed by the instance as it is after the training that
  \<^verbatim>\<open>predict\<close> starts if the instance is untrained, sum to exactly 0. Then \<^verbatim>\<open>predict\<close>
  returns, its total is the arithmetic mean of the historical amounts, and the
  sources mapping it returns is that of the model's predictions, every value of which
  is 0: the total and the sum of the breakdown differ whenever the mean is not 0.
\<close>

theorem income_zero_sum_fallback:
  assumes "2 \<le> length income_data"
    and "snd (income_train ols p self income_data) = Inr True"
    and "s1 = (if is_trained self then self else fst (income_train ols p self income_data))"
    and "predict_each (predict_source s1 (next_month_of now_month))
           (income_sources income_data) = Inr ps"
    and "sum_list (map snd ps) = 0"
  shows "\<exists>amounts. map amount income_data = map Some amounts
           \<and> income_predict ols p now_month self income_data =
               (s1, Inr \<lparr>total = sum_list amounts / real (length amounts), breakdown = ps\<rparr>)
           \<and> (\<forall>(s, v) \<in> set ps. v = 0)"
proof -
  from income_train_amounts [OF assms(2)] obtain amounts where
    am: "map amount income_data = map Some amounts" by blast
  then have th: "those (map amount income_data) = Some amounts" by (simp add: those_eq_Some)
  have nn: "\<forall>(s, v) \<in> set ps. 0 \<le> v"
    using predict_each_values [OF assms(4)] by (auto dest: predict_source_nonneg)
  have z: "\<forall>(s, v) \<in> set ps. v = 0"
    using sum_list_snd_zero [OF nn assms(5)] by auto
  have len: "\<not> length income_data < 2" using assms(1) by simp
  have "income_predict ols p now_month self income_data =
          (s1, Inr \<lparr>total = sum_list amounts / real (length amounts), breakdown = ps\<rparr>)"
  proof (cases "is_trained self")
    case True
    with assms(3) have s1: "s1 = self" by simp
    show ?thesis
      using True assms(4,5) len assms(1) th unfolding s1
      by (simp add: income_predict_def Let_def)
  next
    case False
    with assms(3) have s1: "fst (income_train ols p self income_data) = s1" by simp
    have tr: "income_train ols p self income_data = (s1, Inr True)"
      using assms(2) s1 by (simp add: prod_eq_iff)
    have t1: "is_trained s1" using income_train_True [OF assms(2)] s1 by simp
    show ?thesis
      using False tr t1 assms(4,5) len assms(1) th
      by (simp add: income_predict_def Let_def)
  qed
  with am z show ?thesis by blast
qed

theorem income_zero_sum_fallback_witness:
  "2 \<le> length declining_income
   \<and> snd (income_train trend_fit example_dates new_predictor declining_income) = Inr True
   \<and> predict_each
        (predict_source
           \<lparr>model = Some \<lparr>coef = [0, - 100], intercept = 400\<rparr>, encoder = Some [Some ''salary''],
             is_trained = True, labels = Some [Some ''salary'']\<rparr> (next_month_of 4))
        (income_sources declining_income) = Inr [(Some ''salary'', 0)]
   \<and> map amount declining_income = map Some [300, 200, 100]
   \<and> income_predict trend_fit example_dates 4 new_predictor declining_income =
     (\<lparr>model = Some \<lparr>coef = [0, - 100], intercept = 400\<rparr>, encoder = Some [Some ''salary''],
       is_trained = True, labels = Some [Some ''salary'']\<rparr>,
      Inr \<lparr>total = 200, breakdown = [(Some ''salary'', 0)]\<rparr>)
   \<and> sum_list (map snd [(Some ''salary'', 0 :: real)]) \<noteq> 200"
proof -
  let ?st = "\<lparr>model = Some \<lparr>coef = [0, - 100], intercept = 400\<rparr>, encoder = Some [Some ''salary''],
         is_trained = True, labels = Some [Some ''salary'']\<rparr>"
  let ?ps = "[(Some ''salary'', 0 :: real)]"
  have h1: "2 \<le> length declining_income" by (rule declining_income_facts)
  have h2: "snd (income_train trend_fit example_dates new_predictor declining_income) = Inr True"
    by (simp add: declining_income_train)
  have h3: "?st = (if is_trained new_predictor then new_predictor
                   else fst (income_train trend_fit example_dates new_predictor declining_income))"
    by (simp add: declining_income_train new_predictor_untrained)
  have h4: "predict_each (predict_source ?st (next_month_of 4)) (income_sources declining_income) = Inr ?ps"
    by (simp add: declining_income_facts next_month_of_def predict_source_def encoder_transform_def indicator_def
        linreg_predict_def)
  have h5: "sum_list (map snd ?ps) = 0" by simp
  have am: "map amount declining_income = map Some [300, 200, 100]"
    using declining_income_facts(4) by (simp add: those_eq_Some)
  from income_zero_sum_fallback [OF h1 h2 h3 h4 h5] obtain amounts where
    a: "map amount declining_income = map Some amounts"
    and r: "income_predict trend_fit example_dates 4 new_predictor declining_income =
              (?st, Inr \<lparr>total = sum_list amounts / real (length amounts), breakdown = ?ps\<rparr>)"
    by blast
  from a am have "map Some amounts = map Some [300, 200, 100 :: real]" by simp
  then have "amounts = [300, 200, 100]" by (simp add: map_eq_Cons_conv)
  with r have "income_predict trend_fit example_dates 4 new_predictor declining_income =
              (?st, Inr \<lparr>total = 200, breakdown = ?ps\<rparr>)" by simp
  with h1 h2 h4 am show ?thesis by simp
qed

section \<open>Determinism of the expense prediction\<close>

lemma expense_train_value_independent:
  "snd (expense_train ols p s1 expenses) = snd (expense_train ols p s2 expenses)"
  by (auto simp: expense_train_def expense_prepare_data_def Let_def
      split: option.splits sum.splits)

lemma expense_train_state_independent:
  "snd (expense_train ols p s1 expenses) = Inr True \<Longrightarrow>
   fst (expense_train ols p s1 expenses) = fst (expense_train ols p s2 expenses)"
  by (auto simp: expense_train_def expense_prepare_data_def Let_def
      split: option.splits sum.splits if_splits)

lemma expense_train_untrained:
  "snd (expense_train ols p s expenses) = Inr False \<Longrightarrow>
   \<not> is_trained (fst (expense_train ols p s expenses))"
  by (auto simp: expense_train_def expense_prepare_data_def Let_def
      split: option.splits sum.splits if_splits)

lemma expense_predict_untrained:
  assumes "\<not> is_trained s" and "\<not> length expenses < 3"
  shows "snd (expense_predict ols p now_month s expenses) =
     (case snd (expense_train ols p s expenses) of
        Inl e \<Rightarrow> Inl e
      | Inr False \<Rightarrow> Inr zero_prediction
      | Inr True \<Rightarrow>
          (case predict_each
                  (predict_category (fst (expense_train ols p s expenses)) (next_month_of now_month))
                  (expense_categories expenses) of
             Inl e \<Rightarrow> Inl e
           | Inr predictions \<Rightarrow>
               Inr \<lparr>total = sum_list (map snd predictions), breakdown = predictions\<rparr>))"
proof (cases "expense_train ols p s expenses")
  case (Pair s' res)
  show ?thesis
  proof (cases res)
    case (Inl e)
    with Pair assms show ?thesis by (simp add: expense_predict_def)
  next
    case (Inr b)
    show ?thesis
    proof (cases b)
      case True
      with Pair Inr assms expense_train_True [of ols p s expenses s'] show ?thesis
        by (simp add: expense_predict_def split: sum.splits)
    next
      case False
      with Pair Inr assms expense_train_False [of ols p s expenses s'] show ?thesis
        by (simp add: expense_predict_def)
    qed
  qed
qed

text \<open>
  C10, as stated, fails: the forecast is made for the month after the one the clock
  shows, so two calls on fresh instances with the same input differ when the month has
  changed between them. Three food expenses of 100, 200 and 300 on Mondays of January,
  February and March: the least-squares fit reproduces them exactly (100 per month),
  and each category is forecast at 300 when the clock shows February, at 400 when it
  shows March.
\<close>

theorem expense_predict_clock_counterexample:
  "snd (expense_predict trend_fit example_dates 2 new_predictor monday_food) =
      Inr \<lparr>total = 2400,
           breakdown = [(Some ''food'', 300), (Some ''housing'', 300), (Some ''utilities'', 300),
             (Some ''transportation'', 300), (Some ''entertainment'', 300), (Some ''health'', 300),
             (Some ''education'', 300), (Some ''other'', 300)]\<rparr>
   \<and> snd (expense_predict trend_fit example_dates 3 new_predictor monday_food) =
      Inr \<lparr>total = 3200,
           breakdown = [(Some ''food'', 400), (Some ''housing'', 400), (Some ''utilities'', 400),
             (Some ''transportation'', 400), (Some ''entertainment'', 400), (Some ''health'', 400),
             (Some ''education'', 400), (Some ''other'', 400)]\<rparr>
   \<and> snd (expense_predict trend_fit example_dates 2 new_predictor monday_food)
       \<noteq> snd (expense_predict trend_fit example_dates 3 new_predictor monday_food)"
  by (simp add: monday_food_predict)

text \<open>
  C10, amended. Two calls of \<^verbatim>\<open>predict\<close> with the same input on fresh instances, and
  more generally on any two untrained instances, return identical results provided the
  clock shows the same month at both calls (or, more generally, months with the same
  successor): what is returned is a function of the input data and of that month.
\<close>

theorem expense_predict_deterministic:
  assumes "\<not> is_trained s1" and "\<not> is_trained s2"
    and "next_month_of now1 = next_month_of now2"
  shows "snd (expense_predict ols p now1 s1 expenses) = snd (expense_predict ols p now2 s2 expenses)"
proof (cases "length expenses < 3")
  case True
  then show ?thesis by (simp add: expense_predict_def)
next
  case False
  note v = expense_train_value_independent [of ols p s1 expenses s2]
  show ?thesis
  proof (cases "snd (expense_train ols p s1 expenses) = Inr True")
    case True
    from expense_train_state_independent [OF True, of s2]
    have st: "fst (expense_train ols p s1 expenses) = fst (expense_train ols p s2 expenses)" .
    from True v have t2: "snd (expense_train ols p s2 expenses) = Inr True" by simp
    show ?thesis
      unfolding expense_predict_untrained [OF assms(1) False]
        expense_predict_untrained [OF assms(2) False] True t2 st assms(3)
      by simp
  next
    case F: False
    then show ?thesis using v
      by (auto simp: expense_predict_untrained [OF assms(1) False]
          expense_predict_untrained [OF assms(2) False] split: sum.splits bool.splits)
  qed
qed

theorem expense_predict_deterministic_witness:
  "\<not> is_trained new_predictor
   \<and> \<not> is_trained (new_predictor\<lparr>encoder := Some [Some ''rent'']\<rparr>)
   \<and> next_month_of 2 = next_month_of 2
   \<and> snd (expense_predict trend_fit example_dates 2
            (new_predictor\<lparr>encoder := Some [Some ''rent'']\<rparr>) monday_food) =
      Inr \<lparr>total = 2400,
           breakdown = [(Some ''food'', 300), (Some ''housing'', 300), (Some ''utilities'', 300),
             (Some ''transportation'', 300), (Some ''entertainment'', 300), (Some ''health'', 300),
             (Some ''education'', 300), (Some ''other'', 300)]\<rparr>"
proof -
  have u1: "\<not> is_trained new_predictor" and u2: "\<not> is_trained (new_predictor\<lparr>encoder := Some [Some ''rent'']\<rparr>)"
    by (simp_all add: new_predictor_def)
  from expense_predict_deterministic [of new_predictor "new_predictor\<lparr>encoder := Some [Some ''rent'']\<rparr>"
      2 2 trend_fit example_dates monday_food, OF u1 u2 refl] u1 u2
  show ?thesis by (simp add: monday_food_predict)
qed

section \<open>The vocabulary of the encoder\<close>

lemma indicator_unknown: "l \<notin> set v \<Longrightarrow> indicator v l = replicate (length v) 0"
  by (induction v) (auto simp: indicator_def)

lemma encoder_transform_unknown:
  "Some s \<notin> set v \<Longrightarrow> encoder_transform v (Some s) = Inr (replicate (length v) 0)"
  by (simp add: encoder_transform_def indicator_unknown)

text \<open>A label that is NaN is not encoded at all.\<close>

lemma encoder_transform_nan: "encoder_transform v None = Inl TypeError"
  by (simp add: encoder_transform_def)

lemma expense_train_encoder:
  assumes "expense_train ols p s expenses = (s', Inr b)" and "is_trained s'"
  shows "encoder s' = Some (encoder_fit (map category expenses))"
  using assms
  by (auto simp: expense_train_def expense_prepare_data_def Let_def
      split: option.splits sum.splits if_splits)

lemma expense_predict_keeps_state:
  assumes "expense_predict ols p now_month s expenses = (s', res)"
    and "length expenses < 3 \<or> is_trained s"
  shows "s' = s"
  using assms
  by (auto simp: expense_predict_def split: if_splits sum.splits)

lemma expense_predict_trains:
  assumes "expense_predict ols p now_month s expenses = (s', Inr r)"
    and "\<not> length expenses < 3" and "\<not> is_trained s"
  shows "\<exists>b. expense_train ols p s expenses = (s', Inr b)"
  using assms
  by (auto simp: expense_predict_def split: if_splits sum.splits prod.splits)

lemma exec_call_invariant:
  assumes "exec_call ols p s c = (s', None)"
    and "is_trained s \<longrightarrow> captured \<noteq> None \<and> encoder s = captured"
  shows "is_trained s' \<longrightarrow>
           (case trained_on s c of
              None \<Rightarrow> captured
            | Some expenses \<Rightarrow>
                if is_trained s' then Some (encoder_fit (map category expenses)) else captured) \<noteq> None
         \<and> encoder s' =
           (case trained_on s c of
              None \<Rightarrow> captured
            | Some expenses \<Rightarrow>
                if is_trained s' then Some (encoder_fit (map category expenses)) else captured)"
proof (cases c)
  case (Train expenses)
  with assms(1) obtain b where "expense_train ols p s expenses = (s', Inr b)"
    by (auto simp: exec_call_def split: prod.splits sum.splits)
  from expense_train_encoder [OF this] show ?thesis
    by (simp add: Train trained_on_def)
next
  case (Predict now_month expenses)
  with assms(1) obtain r where e: "expense_predict ols p now_month s expenses = (s', Inr r)"
    by (auto simp: exec_call_def split: prod.splits sum.splits)
  show ?thesis
  proof (cases "length expenses < 3 \<or> is_trained s")
    case True
    with expense_predict_keeps_state [OF e] assms(2) show ?thesis
      by (simp add: Predict trained_on_def)
  next
    case False
    with expense_predict_trains [OF e] obtain b where
      "expense_train ols p s expenses = (s', Inr b)" by auto
    from expense_train_encoder [OF this] False show ?thesis
      by (simp add: Predict trained_on_def)
  qed
qed

lemma run_invariant:
  assumes "run ols p (s0, c0) calls = Some (s, captured)"
    and "is_trained s0 \<longrightarrow> c0 \<noteq> None \<and> encoder s0 = c0"
  shows "is_trained s \<longrightarrow> captured \<noteq> None \<and> encoder s = captured"
  using assms
proof (induction calls arbitrary: s0 c0)
  case Nil
  then show ?case by simp
next
  case (Cons c calls)
  from Cons.prems(1) obtain s1 where ex: "exec_call ols p s0 c = (s1, None)"
    and r: "run ols p (s1, case trained_on s0 c of
                      None \<Rightarrow> c0
                    | Some expenses \<Rightarrow>
                        if is_trained s1 then Some (encoder_fit (map category expenses)) else c0)
              calls = Some (s, captured)"
    by (auto split: prod.splits option.splits)
  show ?case
    by (rule Cons.IH [OF r exec_call_invariant [OF ex Cons.prems(2)]])
qed

lemma run_append:
  "run ols p st (calls @ [c]) =
     (case run ols p st calls of None \<Rightarrow> None | Some st' \<Rightarrow> run ols p st' [c])"
proof (induction calls arbitrary: st)
  case Nil
  then show ?case by (cases st) (simp split: prod.splits option.splits)
next
  case (Cons a calls)
  obtain s0 c0 where st: "st = (s0, c0)" by (cases st)
  show ?case
    by (simp add: st Cons.IH split: prod.splits option.splits)
qed

lemma monday_food_train_any:
  "expense_train trend_fit example_dates s monday_food =
     (\<lparr>model = Some \<lparr>coef = [0, 100, 0], intercept = 0\<rparr>, encoder = Some [Some ''food''],
       is_trained = True, labels = Some [Some ''food'']\<rparr>, Inr True)"
proof -
  have v: "snd (expense_train trend_fit example_dates s monday_food) = Inr True"
    using expense_train_value_independent [of trend_fit example_dates s monday_food new_predictor]
    by (simp add: monday_food_train)
  from expense_train_state_independent [OF v, of new_predictor] v show ?thesis
    by (simp add: monday_food_train prod_eq_iff)
qed

lemma one_rent_train:
  "expense_train ols example_dates
     \<lparr>model = Some \<lparr>coef = [0, 100, 0], intercept = 0\<rparr>, encoder = Some [Some ''food''],
       is_trained = True, labels = Some [Some ''food'']\<rparr> one_rent =
     (\<lparr>model = Some \<lparr>coef = [0, 100, 0], intercept = 0\<rparr>, encoder = Some [Some ''rent''],
       is_trained = False, labels = Some [Some ''food'']\<rparr>, Inr False)"
  by (simp add: expense_train_def expense_prepare_data_def one_rent_def has_column_def
      to_datetime_def example_dates_def encoder_fit_def indicator_def
      List.map_filter_simps Let_def)

text \<open>
  A call of \<^verbatim>\<open>train\<close> that raises is another matter: with a record that lacks its
  amount the encoder is refitted before the regression refuses the data, and the flag
  is not touched. The instance stays trained, with the vocabulary of the data that was
  refused and the regression of the earlier training.
\<close>

lemma raising_train_keeps_flag:
  "expense_train ols example_dates
     \<lparr>model = Some \<lparr>coef = [0, 100, 0], intercept = 0\<rparr>, encoder = Some [Some ''food''],
       is_trained = True, labels = Some [Some ''food'']\<rparr> rent_without_amount =
     (\<lparr>model = Some \<lparr>coef = [0, 100, 0], intercept = 0\<rparr>, encoder = Some [Some ''rent''],
       is_trained = True, labels = Some [Some ''food'']\<rparr>, Inl ValueError)"
  by (simp add: expense_train_def expense_prepare_data_def rent_without_amount_def has_column_def
      to_datetime_def example_dates_def encoder_fit_def indicator_def
      List.map_filter_simps fit_model_def Let_def)

text \<open>
  C8, as stated, fails: a failed \<^verbatim>\<open>train\<close> call does not leave the vocabulary unchanged.
  \<^verbatim>\<open>_prepare_data\<close> fits the encoder before \<^verbatim>\<open>train\<close> finds that there are fewer than 2
  rows. After a successful training on three food expenses the vocabulary is
  \<open>[food]\<close>; a \<^verbatim>\<open>train\<close> call with one rent expense returns \<^verbatim>\<open>False\<close> and leaves the
  vocabulary \<open>[rent]\<close>.
\<close>

theorem failed_train_vocabulary_counterexample:
  "expense_train trend_fit example_dates new_predictor monday_food =
     (\<lparr>model = Some \<lparr>coef = [0, 100, 0], intercept = 0\<rparr>, encoder = Some [Some ''food''],
       is_trained = True, labels = Some [Some ''food'']\<rparr>, Inr True)
   \<and> expense_train trend_fit example_dates
     \<lparr>model = Some \<lparr>coef = [0, 100, 0], intercept = 0\<rparr>, encoder = Some [Some ''food''],
       is_trained = True, labels = Some [Some ''food'']\<rparr> one_rent =
     (\<lparr>model = Some \<lparr>coef = [0, 100, 0], intercept = 0\<rparr>, encoder = Some [Some ''rent''],
       is_trained = False, labels = Some [Some ''food'']\<rparr>, Inr False)
   \<and> Some [Some ''rent''] \<noteq> Some [Some ''food'']"
  by (simp add: monday_food_train one_rent_train)

text \<open>
  C8, amended. Take any sequence of \<^verbatim>\<open>train\<close> and \<^verbatim>\<open>predict\<close> calls on a fresh instance,
  none of which raises. Whenever the instance is trained, the vocabulary of its encoder
  is the one captured at the most recent successful training. A \<^verbatim>\<open>predict\<close> call that
  returns a forecast (not the all-zero shape) leaves the instance trained and has
  computed every value of the forecast with that vocabulary, the training it may have
  started itself included. A failed \<^verbatim>\<open>train\<close> call may have refitted the encoder, but it
  leaves the instance untrained, so that the next forecast is preceded by a training.
  Encoding a string label outside the vocabulary gives the all-zero vector
  and no error.
\<close>

theorem encoder_vocabulary_invariant:
  assumes "run ols p (new_predictor, None) calls = Some (self, captured)"
  shows "(is_trained self \<longrightarrow> captured \<noteq> None \<and> encoder self = captured)
     \<and> (expense_predict ols p now_month self expenses = (self', Inr r) \<longrightarrow> r \<noteq> zero_prediction \<longrightarrow>
          (\<exists>v. run ols p (new_predictor, None) (calls @ [Predict now_month expenses])
                  = Some (self', Some v)
               \<and> is_trained self' \<and> encoder self' = Some v
               \<and> predict_each (predict_category self' (next_month_of now_month))
                    (expense_categories expenses) = Inr (breakdown r)))
     \<and> (expense_train ols p self expenses = (self'', Inr False) \<longrightarrow> \<not> is_trained self'')
     \<and> (Some s \<notin> set v \<longrightarrow> encoder_transform v (Some s) = Inr (replicate (length v) 0))"
proof (intro conjI impI)
  show "captured \<noteq> None" "encoder self = captured" if "is_trained self"
    using run_invariant [OF assms] that by (simp_all add: new_predictor_def)
next
  assume e: "expense_predict ols p now_month self expenses = (self', Inr r)"
    and nz: "r \<noteq> zero_prediction"
  from expense_predict_cases [OF e] nz
  have t: "is_trained self'"
    and pe: "predict_each (predict_category self' (next_month_of now_month))
               (expense_categories expenses) = Inr (breakdown r)"
    by auto
  let ?c = "case trained_on self (Predict now_month expenses) of
              None \<Rightarrow> captured
            | Some xs \<Rightarrow> if is_trained self' then Some (encoder_fit (map category xs)) else captured"
  have ex: "exec_call ols p self (Predict now_month expenses) = (self', None)"
    by (simp add: exec_call_def e)
  have r: "run ols p (new_predictor, None) (calls @ [Predict now_month expenses]) = Some (self', ?c)"
    by (simp add: run_append assms ex)
  from run_invariant [OF r] t have "?c \<noteq> None" "encoder self' = ?c"
    by (simp_all add: new_predictor_def)
  then obtain v where "?c = Some v" "encoder self' = Some v" by (cases ?c) auto
  with r t pe
  show "\<exists>v. run ols p (new_predictor, None) (calls @ [Predict now_month expenses])
                  = Some (self', Some v)
               \<and> is_trained self' \<and> encoder self' = Some v
               \<and> predict_each (predict_category self' (next_month_of now_month))
                    (expense_categories expenses) = Inr (breakdown r)"
    by auto
next
  assume "expense_train ols p self expenses = (self'', Inr False)"
  then show "\<not> is_trained self''" by (rule expense_train_False)
next
  assume "Some s \<notin> set v"
  then show "encoder_transform v (Some s) = Inr (replicate (length v) 0)"
    by (rule encoder_transform_unknown)
qed

lemma monday_food_vocabulary: "encoder_fit (map category monday_food) = [Some ''food'']"
  by (simp add: encoder_fit_def monday_food_def List.map_filter_simps)

lemma run_train_monday_food:
  "run trend_fit example_dates (new_predictor, None) [Train monday_food] =
     Some (\<lparr>model = Some \<lparr>coef = [0, 100, 0], intercept = 0\<rparr>, encoder = Some [Some ''food''],
             is_trained = True, labels = Some [Some ''food'']\<rparr>, Some [Some ''food''])"
  by (simp add: exec_call_def monday_food_train trained_on_def monday_food_vocabulary)

lemma run_train_monday_food_one_rent:
  "run trend_fit example_dates (new_predictor, None) [Train monday_food, Train one_rent] =
     Some (\<lparr>model = Some \<lparr>coef = [0, 100, 0], intercept = 0\<rparr>, encoder = Some [Some ''rent''],
             is_trained = False, labels = Some [Some ''food'']\<rparr>, Some [Some ''food''])"
  by (simp add: exec_call_def monday_food_train one_rent_train trained_on_def monday_food_vocabulary)

lemma monday_food_predict_after_failed_train:
  "expense_predict trend_fit example_dates 2
     \<lparr>model = Some \<lparr>coef = [0, 100, 0], intercept = 0\<rparr>, encoder = Some [Some ''rent''],
       is_trained = False, labels = Some [Some ''food'']\<rparr> monday_food =
     (\<lparr>model = Some \<lparr>coef = [0, 100, 0], intercept = 0\<rparr>, encoder = Some [Some ''food''],
       is_trained = True, labels = Some [Some ''food'']\<rparr>,
      Inr \<lparr>total = 2400,
           breakdown = [(Some ''food'', 300), (Some ''housing'', 300), (Some ''utilities'', 300),
             (Some ''transportation'', 300), (Some ''entertainment'', 300), (Some ''health'', 300),
             (Some ''education'', 300), (Some ''other'', 300)]\<rparr>)"
  by (simp add: expense_predict_def monday_food_length
      monday_food_train_any monday_food_categories next_month_of_def predict_category_def
      encoder_transform_def indicator_def monday_food_day_loop)

theorem encoder_vocabulary_invariant_witness:
  "run trend_fit example_dates (new_predictor, None) [Train monday_food] =
     Some (\<lparr>model = Some \<lparr>coef = [0, 100, 0], intercept = 0\<rparr>, encoder = Some [Some ''food''],
             is_trained = True, labels = Some [Some ''food'']\<rparr>, Some [Some ''food''])
   \<and> run trend_fit example_dates (new_predictor, None) [Train monday_food, Train one_rent] =
     Some (\<lparr>model = Some \<lparr>coef = [0, 100, 0], intercept = 0\<rparr>, encoder = Some [Some ''rent''],
             is_trained = False, labels = Some [Some ''food'']\<rparr>, Some [Some ''food''])
   \<and> run trend_fit example_dates (new_predictor, None)
        [Train monday_food, Train one_rent, Predict 2 monday_food] =
     Some (\<lparr>model = Some \<lparr>coef = [0, 100, 0], intercept = 0\<rparr>, encoder = Some [Some ''food''],
             is_trained = True, labels = Some [Some ''food'']\<rparr>, Some [Some ''food''])
   \<and> predict_each
        (predict_category
           \<lparr>model = Some \<lparr>coef = [0, 100, 0], intercept = 0\<rparr>, encoder = Some [Some ''food''],
             is_trained = True, labels = Some [Some ''food'']\<rparr> 3)
        (expense_categories monday_food) =
      Inr [(Some ''food'', 300), (Some ''housing'', 300), (Some ''utilities'', 300),
             (Some ''transportation'', 300), (Some ''entertainment'', 300), (Some ''health'', 300),
             (Some ''education'', 300), (Some ''other'', 300)]
   \<and> encoder_transform [Some ''food''] (Some ''rent'') = Inr [0]
   \<and> snd (expense_train trend_fit example_dates
        \<lparr>model = Some \<lparr>coef = [0, 100, 0], intercept = 0\<rparr>, encoder = Some [Some ''food''],
             is_trained = True, labels = Some [Some ''food'']\<rparr> one_rent) = Inr False
   \<and> \<not> is_trained (fst (expense_train trend_fit example_dates
        \<lparr>model = Some \<lparr>coef = [0, 100, 0], intercept = 0\<rparr>, encoder = Some [Some ''food''],
             is_trained = True, labels = Some [Some ''food'']\<rparr> one_rent))"
proof -
  let ?m = "\<lparr>coef = [0, 100, 0], intercept = 0\<rparr>"
  let ?s1 = "\<lparr>model = Some ?m, encoder = Some [Some ''food''],
               is_trained = True, labels = Some [Some ''food'']\<rparr>"
  let ?s2 = "\<lparr>model = Some ?m, encoder = Some [Some ''rent''],
               is_trained = False, labels = Some [Some ''food'']\<rparr>"
  let ?r = "\<lparr>total = 2400,
           breakdown = [(Some ''food'', 300), (Some ''housing'', 300), (Some ''utilities'', 300),
             (Some ''transportation'', 300), (Some ''entertainment'', 300), (Some ''health'', 300),
             (Some ''education'', 300), (Some ''other'', 300 :: real)]\<rparr>"
  note r1 = run_train_monday_food
  note r2 = run_train_monday_food_one_rent
  have e: "expense_predict trend_fit example_dates 2 ?s2 monday_food = (?s1, Inr ?r)"
    by (rule monday_food_predict_after_failed_train)
  have nz: "?r \<noteq> zero_prediction" by (simp add: zero_prediction_def)
  have unknown: "Some ''rent'' \<notin> set [Some ''food'']" by simp
  have a: "encoder ?s1 = Some [Some ''food'']"
    using encoder_vocabulary_invariant [where now_month = 2 and expenses = monday_food
        and self' = ?s1 and r = ?r and s = "''rent''" and v = "[Some ''food'']", OF r1] by simp
  have b: "\<exists>v. run trend_fit example_dates (new_predictor, None)
                  ([Train monday_food, Train one_rent] @ [Predict 2 monday_food]) = Some (?s1, Some v)
               \<and> is_trained ?s1 \<and> encoder ?s1 = Some v
               \<and> predict_each (predict_category ?s1 (next_month_of 2))
                    (expense_categories monday_food) = Inr (breakdown ?r)"
    using encoder_vocabulary_invariant [where now_month = 2 and expenses = monday_food
        and self' = ?s1 and r = ?r and s = "''rent''" and v = "[Some ''food'']", OF r2] e nz by blast
  have c: "encoder_transform [Some ''food''] (Some ''rent'') = Inr (replicate (length [Some ''food'']) 0)"
    using encoder_vocabulary_invariant [where now_month = 2 and expenses = monday_food
        and self' = ?s1 and r = ?r and s = "''rent''" and v = "[Some ''food'']", OF r2] unknown by blast
  have t: "expense_train trend_fit example_dates ?s1 one_rent = (?s2, Inr False)"
    by (rule one_rent_train)
  have d: "\<not> is_trained ?s2"
    using encoder_vocabulary_invariant [where now_month = 2 and expenses = one_rent
        and self' = ?s1 and r = ?r and self'' = ?s2 and s = "''rent''" and v = "[Some ''food'']", OF r1] t
    by blast
  from a b c d t r1 r2 show ?thesis
    by (auto simp: next_month_of_def)
qed

end
